theory Spec2Isabelle
  imports Complex_Main
begin

section \<open>BounceTales: ball physics, level model and frame orchestration\<close>

text \<open>
  A shallow embedding of \<^verbatim>\<open>player.py\<close>, \<^verbatim>\<open>level_manager.py\<close> and the
  per-frame part of \<^verbatim>\<open>Game.update\<close> in \<^verbatim>\<open>main.py\<close>.

  Numbers. Python mixes unbounded integers and IEEE doubles in every coordinate and
  velocity of the game (a position starts as an integer and turns into a double with the
  first \<^verbatim>\<open>+= 0.8\<close>). The model of the frame uses \<^typ>\<open>real\<close> for all of them:
  arithmetic is exact, comparisons and assignments are as in the source, and rounding of
  doubles is left out. Where a property depends on the rounding, as the behaviour of the
  proximity test under translation does, the lines are modelled a second time on Python
  numbers, integers and doubles, with every operation rounded as Python rounds it.
\<close>

subsection \<open>Configuration\<close>

text \<open>
  \<^verbatim>\<open>from config import SCREEN_WIDTH, SCREEN_HEIGHT, GRAVITY\<close>: the module \<^verbatim>\<open>config\<close> is
  not among the sources, so its three constants are parameters of the model.
\<close>

record config =
  SCREEN_WIDTH :: real
  SCREEN_HEIGHT :: real
  GRAVITY :: real

subsection \<open>The dictionaries of a level\<close>

text \<open>
  Platforms, enemies and the goal are Python dictionaries. The keys \<^verbatim>\<open>x\<close>, \<^verbatim>\<open>y\<close>,
  \<^verbatim>\<open>width\<close>, \<^verbatim>\<open>height\<close> and \<^verbatim>\<open>color\<close> are present in every literal of
  \<^verbatim>\<open>load_levels\<close>; the keys \<^verbatim>\<open>type\<close>, \<^verbatim>\<open>start_x\<close>, \<^verbatim>\<open>end_x\<close>, \<^verbatim>\<open>speed\<close> and
  \<^verbatim>\<open>patrol\<close> are present in some only, and the code reads them with \<^verbatim>\<open>get\<close>, with
  \<^verbatim>\<open>in\<close> or directly. An absent key is \<open>None\<close>; field \<open>k_foo\<close> is the key \<^verbatim>\<open>foo\<close>.
  A patrol list \<^verbatim>\<open>[lo, hi]\<close> is the pair \<open>(lo, hi)\<close>.
\<close>

record level_dict =
  k_x :: real
  k_y :: real
  k_width :: real
  k_height :: real
  k_color :: "nat \<times> nat \<times> nat"
  k_type :: "string option"
  k_start_x :: "real option"
  k_end_x :: "real option"
  k_speed :: "real option"
  k_patrol :: "(real \<times> real) option"

datatype error = KeyError

subsection \<open>The ball\<close>

text \<open>
  \<^verbatim>\<open>PlayerBall\<close>: \<open>ball_x\<close> and \<open>ball_y\<close> are \<^verbatim>\<open>self.x\<close> and \<^verbatim>\<open>self.y\<close>;
  \<open>cust_size\<close> and \<open>cust_bounce_factor\<close> are \<^verbatim>\<open>self.customization['size']\<close> and
  \<^verbatim>\<open>self.customization['bounce_factor']\<close>, the two customization entries the physics
  reads, taken to hold numbers.
\<close>

record player_ball =
  ball_x :: real
  ball_y :: real
  vel_x :: real
  vel_y :: real
  on_ground :: bool
  cust_size :: real
  cust_bounce_factor :: real
  max_vel_x :: real
  acceleration :: real
  friction :: real

text \<open>
  The fields \<^verbatim>\<open>__init__\<close> sets when no customization file is found: radius 20,
  bounce factor 0.7, and the three physics properties.
\<close>

definition default_ball :: "real \<Rightarrow> real \<Rightarrow> player_ball" where
  "default_ball x y =
     \<lparr>ball_x = x, ball_y = y, vel_x = 0, vel_y = 0, on_ground = False,
      cust_size = 20, cust_bounce_factor = 0.7,
      max_vel_x = 12, acceleration = 0.8, friction = 0.9\<rparr>"

text \<open>\<^verbatim>\<open>PlayerBall.check_collision\<close> (player.py, lines 115 to 140).\<close>

definition check_collision :: "player_ball \<Rightarrow> level_dict \<Rightarrow> player_ball" where
  "check_collision b platform =
     (let radius = cust_size b;
          closest_x = max (k_x platform) (min (ball_x b) (k_x platform + k_width platform));
          closest_y = max (k_y platform) (min (ball_y b) (k_y platform + k_height platform));
          distance = sqrt ((ball_x b - closest_x)\<^sup>2 + (ball_y b - closest_y)\<^sup>2)
      in if distance \<le> radius then
           (if closest_y = k_y platform then
              b\<lparr>ball_y := k_y platform - radius,
                vel_y := - vel_y b * cust_bounce_factor b,
                on_ground := True\<rparr>
            else if closest_y = k_y platform + k_height platform then
              b\<lparr>ball_y := k_y platform + k_height platform + radius,
                vel_y := - vel_y b * 0.5\<rparr>
            else if closest_x = k_x platform then
              b\<lparr>ball_x := k_x platform - radius, vel_x := vel_x b * (- 0.5)\<rparr>
            else
              b\<lparr>ball_x := k_x platform + k_width platform + radius,
                vel_x := vel_x b * (- 0.5)\<rparr>)
         else b)"

text \<open>
  The loop \<^verbatim>\<open>for platform in platforms: self.check_collision(platform)\<close>: the ball is
  threaded through the platforms in list order.
\<close>

fun check_collisions :: "player_ball \<Rightarrow> level_dict list \<Rightarrow> player_ball" where
  "check_collisions b [] = b"
| "check_collisions b (platform # platforms) =
     check_collisions (check_collision b platform) platforms"

text \<open>The block under \<^verbatim>\<open># Screen boundaries\<close> of \<^verbatim>\<open>PlayerBall.update\<close>.\<close>

definition screen_boundaries :: "config \<Rightarrow> player_ball \<Rightarrow> player_ball" where
  "screen_boundaries cfg b =
     (let radius = cust_size b;
          b1 = (if ball_x b < radius then
                  b\<lparr>ball_x := radius, vel_x := vel_x b * (- 0.5)\<rparr>
                else if ball_x b > SCREEN_WIDTH cfg - radius then
                  b\<lparr>ball_x := SCREEN_WIDTH cfg - radius, vel_x := vel_x b * (- 0.5)\<rparr>
                else b)
      in if ball_y b1 < radius then
           b1\<lparr>ball_y := radius, vel_y := 0\<rparr>
         else if ball_y b1 > SCREEN_HEIGHT cfg - radius then
           b1\<lparr>ball_y := SCREEN_HEIGHT cfg - radius,
              vel_y := - vel_y b1 * cust_bounce_factor b1,
              on_ground := True\<rparr>
         else b1)"

text \<open>
  \<^verbatim>\<open>PlayerBall.update(platforms=None, in_water=False)\<close> (player.py, lines 55 to 97).
  The argument \<open>platforms\<close> is optional as in the source: \<open>None\<close> stands for the
  empty list.
\<close>

definition PlayerBall_update ::
  "config \<Rightarrow> level_dict list option \<Rightarrow> bool \<Rightarrow> player_ball \<Rightarrow> player_ball" where
  "PlayerBall_update cfg platforms in_water b =
     (let ps = (case platforms of None \<Rightarrow> [] | Some l \<Rightarrow> l);
          gravity = (if in_water then GRAVITY cfg * 0.5 else GRAVITY cfg);
          b1 = b\<lparr>vel_y := vel_y b + gravity\<rparr>;
          b2 = (if on_ground b1 then b1\<lparr>vel_x := vel_x b1 * friction b1\<rparr> else b1);
          b3 = b2\<lparr>ball_x := ball_x b2 + vel_x b2\<rparr>;
          b4 = b3\<lparr>ball_y := ball_y b3 + vel_y b3\<rparr>;
          b5 = b4\<lparr>on_ground := False\<rparr>;
          b6 = check_collisions b5 ps
      in screen_boundaries cfg b6)"

text \<open>
  The ball \<^verbatim>\<open>PlayerBall.update\<close> has made before its loop over the platforms (lines
  65 to 78): gravity, friction, the move, and \<^verbatim>\<open>on_ground\<close> reset.
\<close>

definition moved_ball :: "config \<Rightarrow> bool \<Rightarrow> player_ball \<Rightarrow> player_ball" where
  "moved_ball cfg in_water b =
     (let gravity = (if in_water then GRAVITY cfg * 0.5 else GRAVITY cfg);
          b1 = b\<lparr>vel_y := vel_y b + gravity\<rparr>;
          b2 = (if on_ground b1 then b1\<lparr>vel_x := vel_x b1 * friction b1\<rparr> else b1);
          b3 = b2\<lparr>ball_x := ball_x b2 + vel_x b2\<rparr>;
          b4 = b3\<lparr>ball_y := ball_y b3 + vel_y b3\<rparr>
      in b4\<lparr>on_ground := False\<rparr>)"

text \<open>
  The movement intents. The class body of \<^verbatim>\<open>PlayerBall\<close> binds \<^verbatim>\<open>move_left\<close> and
  \<^verbatim>\<open>move_right\<close> twice (lines 99 to 107 and lines 142 to 155); Python keeps the later
  binding of each name, so the methods a caller reaches are those of lines 142 to 155.
  The later \<^verbatim>\<open>move_right\<close> has, after its speed test, a second docstring and the
  statements of a jump (lines 152 to 155) at the indentation of its own body: they belong
  to \<^verbatim>\<open>move_right\<close> and run on every call. \<^verbatim>\<open>jump\<close> is bound once, at line 109.
\<close>

definition move_left :: "player_ball \<Rightarrow> player_ball" where
  "move_left b =
     (if \<bar>vel_x b\<bar> < max_vel_x b then b\<lparr>vel_x := vel_x b - acceleration b\<rparr> else b)"

definition move_right :: "player_ball \<Rightarrow> player_ball" where
  "move_right b =
     (let b1 = (if \<bar>vel_x b\<bar> < max_vel_x b then b\<lparr>vel_x := vel_x b + acceleration b\<rparr>
                else b)
      in if on_ground b1 then b1\<lparr>vel_y := - 12, on_ground := False\<rparr> else b1)"

text \<open>The earlier binding of \<^verbatim>\<open>move_right\<close> (lines 104 to 107), which the later one replaces.\<close>

definition move_right_shadowed :: "player_ball \<Rightarrow> player_ball" where
  "move_right_shadowed b =
     (if \<bar>vel_x b\<bar> < max_vel_x b then b\<lparr>vel_x := vel_x b + acceleration b\<rparr> else b)"

definition jump :: "player_ball \<Rightarrow> player_ball" where
  "jump b = (if on_ground b then b\<lparr>vel_y := - 15, on_ground := False\<rparr> else b)"

subsection \<open>The level manager\<close>

text \<open>
  \<^verbatim>\<open>load_level\<close> assigns \<^verbatim>\<open>self.platforms = level_data['platforms']\<close>: the active list
  and the list inside \<^verbatim>\<open>self.levels\<close> are one Python object, and so are the
  dictionaries in it, which \<^verbatim>\<open>update\<close> mutates in place. The model keeps the mutable
  dictionaries in a heap, a function from addresses to dictionaries, and lists of
  dictionaries as lists of addresses; the lists themselves and the goal dictionary are
  never mutated and are kept by value.
\<close>

type_synonym addr = nat

type_synonym heap = "addr \<Rightarrow> level_dict"

record level =
  lv_platforms :: "addr list"
  lv_enemies :: "addr list"
  lv_goal :: level_dict
  lv_start_pos :: "real \<times> real"
  lv_background :: "nat \<times> nat \<times> nat"

record level_manager =
  levels :: "int \<rightharpoonup> level"
  current_level :: int
  platforms :: "addr list"
  enemies :: "addr list"
  goal :: "level_dict option"
  heap :: heap

text \<open>A dictionary literal with the five keys every literal of \<^verbatim>\<open>load_levels\<close> has.\<close>

definition rect_dict :: "real \<Rightarrow> real \<Rightarrow> real \<Rightarrow> real \<Rightarrow> nat \<times> nat \<times> nat \<Rightarrow> level_dict" where
  "rect_dict x y w h c =
     \<lparr>k_x = x, k_y = y, k_width = w, k_height = h, k_color = c,
      k_type = None, k_start_x = None, k_end_x = None, k_speed = None, k_patrol = None\<rparr>"

text \<open>The literals of \<^verbatim>\<open>load_levels\<close> (level_manager.py, lines 13 to 75), in source order.\<close>

definition level1_platforms :: "level_dict list" where
  "level1_platforms =
     [rect_dict 0 500 300 20 (0, 200, 0),
      rect_dict 400 500 400 20 (0, 200, 0),
      rect_dict 200 400 200 20 (0, 200, 0),
      rect_dict 500 300 200 20 (0, 200, 0),
      rect_dict 100 200 200 20 (0, 200, 0)]"

definition level2_platforms :: "level_dict list" where
  "level2_platforms =
     [rect_dict 0 550 800 50 (139, 69, 19),
      rect_dict 100 450 100 20 (0, 200, 0),
      rect_dict 300 400 100 20 (0, 200, 0),
      rect_dict 500 350 100 20 (0, 200, 0),
      (rect_dict 0 500 800 50 (64, 164, 223))\<lparr>k_type := Some ''water''\<rparr>,
      rect_dict 650 300 100 20 (200, 0, 0)]"

definition level2_enemies :: "level_dict list" where
  "level2_enemies =
     [(rect_dict 200 430 30 20 (255, 0, 0))\<lparr>k_patrol := Some (150, 250)\<rparr>]"

definition level3_platforms :: "level_dict list" where
  "level3_platforms =
     [rect_dict 0 550 200 50 (139, 69, 19),
      rect_dict 300 550 200 50 (139, 69, 19),
      rect_dict 600 550 200 50 (139, 69, 19),
      rect_dict 100 450 100 20 (0, 200, 0),
      rect_dict 300 400 100 20 (0, 200, 0),
      rect_dict 500 350 100 20 (0, 200, 0),
      (rect_dict 200 300 100 20 (0, 200, 0))
        \<lparr>k_type := Some ''moving'', k_start_x := Some 200, k_end_x := Some 400,
         k_speed := Some 1\<rparr>,
      rect_dict 650 200 100 20 (200, 0, 0)]"

definition level3_enemies :: "level_dict list" where
  "level3_enemies =
     [(rect_dict 400 530 30 20 (255, 0, 0))\<lparr>k_patrol := Some (350, 450)\<rparr>,
      (rect_dict 600 400 30 20 (255, 0, 0))\<lparr>k_patrol := Some (550, 650)\<rparr>]"

text \<open>
  Allocation: the dictionaries of the three levels take the addresses 0 to 21 in source
  order (level 1: platforms 0 to 4; level 2: platforms 5 to 10, enemy 11; level 3:
  platforms 12 to 19, enemies 20 and 21). \<open>alloc\<close> stores a list at consecutive
  addresses; an address outside 0 to 21 is in no list of the model and holds a blank
  dictionary that nothing reads.
\<close>

fun alloc :: "addr \<Rightarrow> level_dict list \<Rightarrow> heap \<Rightarrow> heap" where
  "alloc a [] h = h"
| "alloc a (d # ds) h = alloc (Suc a) ds (h(a := d))"

definition load_levels_heap :: heap where
  "load_levels_heap =
     alloc 20 level3_enemies (alloc 12 level3_platforms
       (alloc 11 level2_enemies (alloc 5 level2_platforms
         (alloc 0 level1_platforms (\<lambda>a. rect_dict 0 0 0 0 (0, 0, 0))))))"

definition level1 :: level where
  "level1 = \<lparr>lv_platforms = [0, 1, 2, 3, 4], lv_enemies = [],
             lv_goal = rect_dict 150 150 50 50 (255, 215, 0),
             lv_start_pos = (100, 50), lv_background = (135, 206, 235)\<rparr>"

definition level2 :: level where
  "level2 = \<lparr>lv_platforms = [5, 6, 7, 8, 9, 10], lv_enemies = [11],
             lv_goal = rect_dict 675 250 50 50 (255, 215, 0),
             lv_start_pos = (150, 400), lv_background = (100, 149, 237)\<rparr>"

definition level3 :: level where
  "level3 = \<lparr>lv_platforms = [12, 13, 14, 15, 16, 17, 18, 19], lv_enemies = [20, 21],
             lv_goal = rect_dict 675 150 50 50 (255, 215, 0),
             lv_start_pos = (100, 400), lv_background = (47, 79, 79)\<rparr>"

text \<open>\<^verbatim>\<open>LevelManager.__init__\<close> followed by \<^verbatim>\<open>load_levels\<close>.\<close>

definition LevelManager_init :: level_manager where
  "LevelManager_init =
     \<lparr>levels = [1 \<mapsto> level1, 2 \<mapsto> level2, 3 \<mapsto> level3],
      current_level = 0, platforms = [], enemies = [], goal = None,
      heap = load_levels_heap\<rparr>"

text \<open>
  \<^verbatim>\<open>LevelManager.load_level\<close> (lines 77 to 86): the start position, or \<open>None\<close> for
  Python's \<^verbatim>\<open>None\<close>, and the manager after the call.
\<close>

definition load_level :: "int \<Rightarrow> level_manager \<Rightarrow> (real \<times> real) option \<times> level_manager" where
  "load_level level_num lm =
     (case levels lm level_num of
        Some level_data \<Rightarrow>
          (Some (lv_start_pos level_data),
           lm\<lparr>current_level := level_num,
              platforms := lv_platforms level_data,
              enemies := lv_enemies level_data,
              goal := Some (lv_goal level_data)\<rparr>)
      | None \<Rightarrow> (None, lm))"

text \<open>
  The body of the loop over platforms in \<^verbatim>\<open>LevelManager.update\<close> (lines 92 to 99).
  \<^verbatim>\<open>platform.get('speed', 1)\<close> and the two \<^verbatim>\<open>get\<close>s of the bounds have defaults; the
  assignments \<^verbatim>\<open>platform['x'] = platform['end_x']\<close> and \<^verbatim>\<open>platform['speed'] *= -1\<close>
  raise \<^verbatim>\<open>KeyError\<close> on an absent key.
\<close>

definition update_platform :: "level_dict \<Rightarrow> error + level_dict" where
  "update_platform platform =
     (if k_type platform = Some ''moving'' then
        (let p1 = platform\<lparr>k_x := k_x platform +
                     (case k_speed platform of None \<Rightarrow> 1 | Some v \<Rightarrow> v)\<rparr>
         in if k_x p1 > (case k_end_x p1 of None \<Rightarrow> k_x p1 + 100 | Some e \<Rightarrow> e) then
              (case k_end_x p1 of
                 None \<Rightarrow> Inl KeyError
               | Some e \<Rightarrow>
                   (case k_speed p1 of
                      None \<Rightarrow> Inl KeyError
                    | Some v \<Rightarrow> Inr (p1\<lparr>k_x := e, k_speed := Some (v * (- 1))\<rparr>)))
            else if k_x p1 < (case k_start_x p1 of None \<Rightarrow> k_x p1 - 100 | Some s \<Rightarrow> s) then
              (case k_start_x p1 of
                 None \<Rightarrow> Inl KeyError
               | Some s \<Rightarrow>
                   (case k_speed p1 of
                      None \<Rightarrow> Inl KeyError
                    | Some v \<Rightarrow> Inr (p1\<lparr>k_x := s, k_speed := Some (v * (- 1))\<rparr>)))
            else Inr p1)
      else Inr platform)"

text \<open>The body of the loop over enemies (lines 103 to 110).\<close>

definition update_enemy :: "level_dict \<Rightarrow> level_dict" where
  "update_enemy enemy =
     (case k_patrol enemy of
        None \<Rightarrow> enemy
      | Some (lo, hi) \<Rightarrow>
          (let e1 = enemy\<lparr>k_x := k_x enemy +
                       (case k_speed enemy of None \<Rightarrow> 1 | Some v \<Rightarrow> v)\<rparr>
           in if k_x e1 > hi then e1\<lparr>k_x := hi, k_speed := Some (- 1)\<rparr>
              else if k_x e1 < lo then e1\<lparr>k_x := lo, k_speed := Some 1\<rparr>
              else e1))"

text \<open>The two loops, over the addresses of the active lists, mutating the heap.\<close>

fun update_platforms :: "addr list \<Rightarrow> heap \<Rightarrow> error + heap" where
  "update_platforms [] h = Inr h"
| "update_platforms (a # as) h =
     (case update_platform (h a) of
        Inl e \<Rightarrow> Inl e
      | Inr p \<Rightarrow> update_platforms as (h(a := p)))"

fun update_enemies :: "addr list \<Rightarrow> heap \<Rightarrow> heap" where
  "update_enemies [] h = h"
| "update_enemies (a # as) h = update_enemies as (h(a := update_enemy (h a)))"

text \<open>
  \<^verbatim>\<open>LevelManager.check_goal_collision\<close> (lines 122 to 140), in the exact arithmetic
  of the frame model. The same lines with the rounding of Python's numbers are
  \<open>check_goal_collision_double\<close> below.
\<close>

definition check_goal_collision :: "level_manager \<Rightarrow> player_ball \<Rightarrow> bool" where
  "check_goal_collision lm player =
     (case goal lm of
        None \<Rightarrow> False
      | Some g \<Rightarrow>
          (let dx = \<bar>ball_x player - (k_x g + k_width g / 2)\<bar>;
               dy = \<bar>ball_y player - (k_y g + k_height g / 2)\<bar>
           in if dx > k_width g / 2 + cust_size player then False
              else if dy > k_height g / 2 + cust_size player then False
              else if dx \<le> k_width g / 2 \<or> dy \<le> k_height g / 2 then True
              else (dx - k_width g / 2)\<^sup>2 + (dy - k_height g / 2)\<^sup>2
                     \<le> (cust_size player)\<^sup>2))"

text \<open>
  \<^verbatim>\<open>LevelManager.check_enemy_collision\<close> (lines 142 to 161): the loop over the enemies,
  where \<^verbatim>\<open>continue\<close> goes on with the rest of the list; in exact arithmetic, with
  \<open>check_enemy_collision_double\<close> below for the rounding.
\<close>

fun enemy_collision_loop :: "level_dict list \<Rightarrow> player_ball \<Rightarrow> bool" where
  "enemy_collision_loop [] player = False"
| "enemy_collision_loop (enemy # rest) player =
     (let dx = \<bar>ball_x player - (k_x enemy + k_width enemy / 2)\<bar>;
          dy = \<bar>ball_y player - (k_y enemy + k_height enemy / 2)\<bar>
      in if dx > k_width enemy / 2 + cust_size player then enemy_collision_loop rest player
         else if dy > k_height enemy / 2 + cust_size player then
           enemy_collision_loop rest player
         else if dx \<le> k_width enemy / 2 \<or> dy \<le> k_height enemy / 2 then True
         else if (dx - k_width enemy / 2)\<^sup>2 + (dy - k_height enemy / 2)\<^sup>2
                   \<le> (cust_size player)\<^sup>2 then True
         else enemy_collision_loop rest player)"

definition check_enemy_collision :: "level_manager \<Rightarrow> player_ball \<Rightarrow> bool" where
  "check_enemy_collision lm player =
     enemy_collision_loop (map (heap lm) (enemies lm)) player"

text \<open>\<^verbatim>\<open>LevelManager.get_water_platforms\<close> (lines 163 to 165).\<close>

definition get_water_platforms :: "level_manager \<Rightarrow> level_dict list" where
  "get_water_platforms lm =
     filter (\<lambda>p. k_type p = Some ''water'') (map (heap lm) (platforms lm))"

text \<open>
  \<^verbatim>\<open>LevelManager.update\<close> (lines 88 to 120): the result string (\<open>None\<close> for Python's
  \<^verbatim>\<open>None\<close>) and the manager after the call, or the exception.
\<close>

definition LevelManager_update ::
  "level_manager \<Rightarrow> player_ball \<Rightarrow> error + (string option \<times> level_manager)" where
  "LevelManager_update lm player =
     (case update_platforms (platforms lm) (heap lm) of
        Inl e \<Rightarrow> Inl e
      | Inr h1 \<Rightarrow>
          (let lm1 = lm\<lparr>heap := update_enemies (enemies lm) h1\<rparr>
           in Inr (if check_goal_collision lm1 player then Some ''level_complete''
                   else if check_enemy_collision lm1 player then Some ''player_dead''
                   else None,
                   lm1)))"

subsection \<open>The frame of the game loop\<close>

text \<open>
  \<^verbatim>\<open>Game.update\<close> (main.py, lines 266 to 294) in the state \<^verbatim>\<open>GAME_PLAY\<close> with a player:
  the immersion test, the ball's integration step against
  \<^verbatim>\<open>self.level_manager.platforms\<close>, the level's update, and the branch the frame takes.
  What the branches then do to score, lives and game state is not part of the model.
\<close>

definition in_water_test :: "level_manager \<Rightarrow> player_ball \<Rightarrow> bool" where
  "in_water_test lm player =
     list_ex (\<lambda>platform.
         k_x platform \<le> ball_x player \<and> ball_x player \<le> k_x platform + k_width platform \<and>
         k_y platform \<le> ball_y player + cust_size player \<and>
         ball_y player + cust_size player \<le> k_y platform + k_height platform)
       (get_water_platforms lm)"

definition fell_off_world :: "config \<Rightarrow> player_ball \<Rightarrow> bool" where
  "fell_off_world cfg player = (ball_y player > SCREEN_HEIGHT cfg + 100)"

datatype frame_branch = LevelCompleteBranch | DeathBranch | NoBranch

definition Game_update ::
  "config \<Rightarrow> level_manager \<Rightarrow> player_ball \<Rightarrow>
     error + (frame_branch \<times> player_ball \<times> level_manager)" where
  "Game_update cfg lm player =
     (let in_water = in_water_test lm player;
          player1 = PlayerBall_update cfg (Some (map (heap lm) (platforms lm))) in_water player
      in case LevelManager_update lm player1 of
           Inl e \<Rightarrow> Inl e
         | Inr (result, lm1) \<Rightarrow>
             Inr (if result = Some ''level_complete'' then LevelCompleteBranch
                  else if result = Some ''player_dead'' \<or> fell_off_world cfg player1
                    then DeathBranch
                  else NoBranch,
                  player1, lm1))"

subsection \<open>The customization of a new ball\<close>

text \<open>
  \<^verbatim>\<open>self.customization\<close> is a dictionary from key names to values of several Python
  types, and \<^verbatim>\<open>json.load\<close> returns such values: \<open>jvalue\<close> has the JSON values and
  the tuples of the defaults. Numbers are \<open>JNum\<close>.
\<close>

datatype jvalue =
    JNull
  | JBool bool
  | JNum real
  | JStr string
  | JList "jvalue list"
  | JTuple "jvalue list"

type_synonym customization = "string \<rightharpoonup> jvalue"

text \<open>The dictionary literal of \<^verbatim>\<open>PlayerBall.__init__\<close> (player.py, lines 17 to 27).\<close>

definition default_customization :: customization where
  "default_customization =
     [''color'' \<mapsto> JTuple [JNum 255, JNum 0, JNum 0],
      ''size'' \<mapsto> JNum 20,
      ''texture'' \<mapsto> JStr ''solid'',
      ''bounce_factor'' \<mapsto> JNum 0.7,
      ''opacity'' \<mapsto> JNum 255,
      ''glow'' \<mapsto> JBool False,
      ''glow_color'' \<mapsto> JTuple [JNum 255, JNum 255, JNum 200],
      ''glow_size'' \<mapsto> JNum 1.5,
      ''pattern_color'' \<mapsto> JTuple [JNum 255, JNum 255, JNum 255]]"

text \<open>
  What reading \<^verbatim>\<open>customization.json\<close> gives: \<^verbatim>\<open>open\<close> raises
  \<^verbatim>\<open>FileNotFoundError\<close>, \<^verbatim>\<open>json.load\<close> raises \<^verbatim>\<open>JSONDecodeError\<close>, or it returns
  the persisted mapping.
\<close>

datatype file_content = FileNotFound | JSONDecodeError | Saved customization

text \<open>
  \<^verbatim>\<open>PlayerBall.load_customization\<close> (lines 37 to 48). \<^verbatim>\<open>dict.update\<close> is \<open>++\<close>: the
  persisted value wins on every key the mapping has. The two caught exceptions leave
  the dictionary as it is; a \<^verbatim>\<open>KeyError\<close> of \<^verbatim>\<open>self.customization['color']\<close> is not
  caught.
\<close>

definition load_customization :: "file_content \<Rightarrow> customization \<Rightarrow> error + customization" where
  "load_customization persisted customization =
     (case persisted of
        Saved saved \<Rightarrow>
          (let c1 = customization ++ saved
           in case c1 ''color'' of
                None \<Rightarrow> Inl KeyError
              | Some (JList l) \<Rightarrow> Inr (c1(''color'' \<mapsto> JTuple l))
              | Some _ \<Rightarrow> Inr c1)
      | _ \<Rightarrow> Inr customization)"

text \<open>
  The customization of a ball after \<^verbatim>\<open>PlayerBall.__init__\<close>: the defaults, then
  \<^verbatim>\<open>self.load_customization()\<close>.
\<close>

definition PlayerBall_customization :: "file_content \<Rightarrow> error + customization" where
  "PlayerBall_customization persisted = load_customization persisted default_customization"

subsection \<open>The proximity test in double arithmetic\<close>

text \<open>
  A Python number is an unbounded integer or a double. \<open>double_round\<close> is rounding to
  the nearest double, ties to the even mantissa, with 53 bits of precision; overflow,
  subnormal numbers and NaN are not modelled.
\<close>

definition round_half_even :: "real \<Rightarrow> int" where
  "round_half_even q =
     (let f = \<lfloor>q\<rfloor>
      in if q - of_int f < 1 / 2 then f
         else if 1 / 2 < q - of_int f then f + 1
         else if even f then f else f + 1)"

definition double_round :: "real \<Rightarrow> real" where
  "double_round x =
     (if x = 0 then 0
      else (let e = \<lfloor>log 2 \<bar>x\<bar>\<rfloor> - 52
            in of_int (round_half_even (x / 2 powr of_int e)) * 2 powr of_int e))"

datatype pynum = PyInt int | PyFloat real

text \<open>The number a value denotes, and \<^verbatim>\<open>float(a)\<close>, which rounds an integer.\<close>

fun num_val :: "pynum \<Rightarrow> real" where
  "num_val (PyInt n) = of_int n"
| "num_val (PyFloat x) = x"

fun to_float :: "pynum \<Rightarrow> real" where
  "to_float (PyInt n) = double_round (of_int n)"
| "to_float (PyFloat x) = x"

text \<open>
  \<^verbatim>\<open>a + b\<close> and \<^verbatim>\<open>a - b\<close>: exact on two integers; otherwise both operands become
  doubles and the result is rounded. \<^verbatim>\<open>a / 2\<close> is true division, a correctly rounded
  double also on an integer. \<^verbatim>\<open>a ** 2\<close> is exact on an integer and a rounded product on
  a double. Comparisons compare the numbers denoted, also between an integer and a
  double.
\<close>

fun py_add :: "pynum \<Rightarrow> pynum \<Rightarrow> pynum" where
  "py_add (PyInt m) (PyInt n) = PyInt (m + n)"
| "py_add a b = PyFloat (double_round (to_float a + to_float b))"

fun py_sub :: "pynum \<Rightarrow> pynum \<Rightarrow> pynum" where
  "py_sub (PyInt m) (PyInt n) = PyInt (m - n)"
| "py_sub a b = PyFloat (double_round (to_float a - to_float b))"

fun py_half :: "pynum \<Rightarrow> pynum" where
  "py_half (PyInt m) = PyFloat (double_round (of_int m / 2))"
| "py_half (PyFloat x) = PyFloat (double_round (x / 2))"

fun py_abs :: "pynum \<Rightarrow> pynum" where
  "py_abs (PyInt m) = PyInt \<bar>m\<bar>"
| "py_abs (PyFloat x) = PyFloat \<bar>x\<bar>"

fun py_square :: "pynum \<Rightarrow> pynum" where
  "py_square (PyInt m) = PyInt (m * m)"
| "py_square (PyFloat x) = PyFloat (double_round (x * x))"

definition py_gt :: "pynum \<Rightarrow> pynum \<Rightarrow> bool" where
  "py_gt a b = (num_val a > num_val b)"

definition py_le :: "pynum \<Rightarrow> pynum \<Rightarrow> bool" where
  "py_le a b = (num_val a \<le> num_val b)"

text \<open>
  The keys of a goal or enemy dictionary and the fields of the ball that the proximity
  test reads, as Python numbers.
\<close>

record py_dict =
  n_x :: pynum
  n_y :: pynum
  n_width :: pynum
  n_height :: pynum

record py_ball =
  n_ball_x :: pynum
  n_ball_y :: pynum
  n_size :: pynum

text \<open>
  \<^verbatim>\<open>LevelManager.check_goal_collision\<close> (lines 122 to 140) on \<^verbatim>\<open>self.goal\<close> and the
  player, operation by operation.
\<close>

definition check_goal_collision_double :: "py_dict option \<Rightarrow> py_ball \<Rightarrow> bool" where
  "check_goal_collision_double gl player =
     (case gl of
        None \<Rightarrow> False
      | Some g \<Rightarrow>
          (let dx = py_abs (py_sub (n_ball_x player) (py_add (n_x g) (py_half (n_width g))));
               dy = py_abs (py_sub (n_ball_y player) (py_add (n_y g) (py_half (n_height g))))
           in if py_gt dx (py_add (py_half (n_width g)) (n_size player)) then False
              else if py_gt dy (py_add (py_half (n_height g)) (n_size player)) then False
              else if py_le dx (py_half (n_width g)) \<or> py_le dy (py_half (n_height g))
                then True
              else py_le (py_add (py_square (py_sub dx (py_half (n_width g))))
                                 (py_square (py_sub dy (py_half (n_height g)))))
                         (py_square (n_size player))))"

text \<open>\<^verbatim>\<open>LevelManager.check_enemy_collision\<close> (lines 142 to 161) on \<^verbatim>\<open>self.enemies\<close>.\<close>

fun check_enemy_collision_double :: "py_dict list \<Rightarrow> py_ball \<Rightarrow> bool" where
  "check_enemy_collision_double [] player = False"
| "check_enemy_collision_double (enemy # rest) player =
     (let dx = py_abs (py_sub (n_ball_x player)
                         (py_add (n_x enemy) (py_half (n_width enemy))));
          dy = py_abs (py_sub (n_ball_y player)
                         (py_add (n_y enemy) (py_half (n_height enemy))))
      in if py_gt dx (py_add (py_half (n_width enemy)) (n_size player)) then
           check_enemy_collision_double rest player
         else if py_gt dy (py_add (py_half (n_height enemy)) (n_size player)) then
           check_enemy_collision_double rest player
         else if py_le dx (py_half (n_width enemy)) \<or> py_le dy (py_half (n_height enemy))
           then True
         else if py_le (py_add (py_square (py_sub dx (py_half (n_width enemy))))
                               (py_square (py_sub dy (py_half (n_height enemy)))))
                       (py_square (n_size player)) then True
         else check_enemy_collision_double rest player)"

text \<open>The goal of level 1, and a ball of radius 20 whose centre is 46 to the right of the goal's.\<close>

definition level1_goal_numbers :: py_dict where
  "level1_goal_numbers =
     \<lparr>n_x = PyInt 150, n_y = PyInt 150, n_width = PyInt 50, n_height = PyInt 50\<rparr>"

definition ball_right_of_goal :: py_ball where
  "ball_right_of_goal = \<lparr>n_ball_x = PyInt 221, n_ball_y = PyInt 175, n_size = PyInt 20\<rparr>"

subsection \<open>Notions of the specification\<close>

text \<open>
  The ranges the specification documents for a ball's customization: size in [10,50],
  bounce factor in [0.1,1.0], opacity in [0,255].
\<close>

definition in_documented_ranges :: "customization \<Rightarrow> bool" where
  "in_documented_ranges c =
     ((case c ''size'' of Some (JNum s) \<Rightarrow> 10 \<le> s \<and> s \<le> 50 | _ \<Rightarrow> False) \<and>
      (case c ''bounce_factor'' of Some (JNum f) \<Rightarrow> 0.1 \<le> f \<and> f \<le> 1 | _ \<Rightarrow> False) \<and>
      (case c ''opacity'' of Some (JNum p) \<Rightarrow> 0 \<le> p \<and> p \<le> 255 | _ \<Rightarrow> False))"

text \<open>The conversion \<^verbatim>\<open>load_customization\<close> applies to the colour: a list becomes a tuple.\<close>

fun as_tuple :: "jvalue \<Rightarrow> jvalue" where
  "as_tuple (JList l) = JTuple l"
| "as_tuple v = v"

text \<open>A platform list with the platforms of kind water left out.\<close>

definition without_water :: "level_dict list \<Rightarrow> level_dict list" where
  "without_water ps = filter (\<lambda>p. k_type p \<noteq> Some ''water'') ps"

text \<open>
  ``The signed speed is negated exactly when x reaches a bound'', for a platform \<open>p\<close>
  and the platform \<open>p'\<close> a step makes of it: the speed of \<open>p'\<close> is minus that of \<open>p\<close>
  if and only if the position of \<open>p'\<close> is one of the two bounds.
\<close>

definition speed_negated_iff_at_bound :: "level_dict \<Rightarrow> level_dict \<Rightarrow> bool" where
  "speed_negated_iff_at_bound p p' =
     ((k_speed p' = map_option uminus (k_speed p)) =
      (Some (k_x p') = k_end_x p \<or> Some (k_x p') = k_start_x p))"

text \<open>
  Translating a rectangle and the ball by a vector, with Python's addition; and the
  numbers on which the test's additions are exact: the multiples of \<open>1 / 2 ^ n\<close> with a
  numerator of magnitude at most \<open>2 ^ 50\<close> (for \<open>n = 0\<close>, the integers up to \<open>2 ^ 50\<close>).
\<close>

definition translate_py_dict :: "pynum \<Rightarrow> pynum \<Rightarrow> py_dict \<Rightarrow> py_dict" where
  "translate_py_dict tx ty d = d\<lparr>n_x := py_add (n_x d) tx, n_y := py_add (n_y d) ty\<rparr>"

definition translate_py_ball :: "pynum \<Rightarrow> pynum \<Rightarrow> py_ball \<Rightarrow> py_ball" where
  "translate_py_ball tx ty b =
     b\<lparr>n_ball_x := py_add (n_ball_x b) tx, n_ball_y := py_add (n_ball_y b) ty\<rparr>"

definition dyadic :: "nat \<Rightarrow> pynum \<Rightarrow> bool" where
  "dyadic n a =
     (let q = num_val a * 2 ^ n in q = of_int \<lfloor>q\<rfloor> \<and> \<bar>q\<bar> \<le> 2 ^ 50)"

definition dyadic_rect :: "nat \<Rightarrow> py_dict \<Rightarrow> bool" where
  "dyadic_rect n d =
     (dyadic n (n_x d) \<and> dyadic n (n_y d) \<and> dyadic n (n_width d) \<and> dyadic n (n_height d))"

text \<open>
  A configuration for concrete frames: an 800 by 600 screen, the extent of the level
  literals, and a gravity of half a pixel per frame.
\<close>

definition sample_config :: config where
  "sample_config = \<lparr>SCREEN_WIDTH = 800, SCREEN_HEIGHT = 600, GRAVITY = 0.5\<rparr>"

section \<open>Movement intents\<close>

lemma move_left_effect:
  "move_left b = b\<lparr>vel_x := (if \<bar>vel_x b\<bar> < max_vel_x b then vel_x b - acceleration b
                               else vel_x b)\<rparr>"
  by (simp add: move_left_def)

lemma move_right_airborne:
  "\<not> on_ground b \<Longrightarrow>
   move_right b = b\<lparr>vel_x := (if \<bar>vel_x b\<bar> < max_vel_x b then vel_x b + acceleration b
                                else vel_x b)\<rparr>"
  by (simp add: move_right_def)

text \<open>
  Claim C3. moveLeft() and moveRight() adjust \<open>vel_x\<close> by minus and plus the acceleration
  while \<open>\<bar>vel_x\<bar> < max_vel_x\<close> and change nothing else of the ball. For \<^verbatim>\<open>move_left\<close>
  this is \<open>move_left_effect\<close>, and for \<^verbatim>\<open>move_right\<close> on an airborne ball it is
  \<open>move_right_airborne\<close>. On a ball that is on the ground the method \<^verbatim>\<open>move_right\<close>
  also runs the jump statements of lines 152 to 155: a ball at rest on the ground, as
  the constructor's physics properties make it, leaves the call with \<open>vel_y = -12\<close> and
  \<open>on_ground = False\<close>, where the shadowed binding and \<^verbatim>\<open>move_left\<close> leave both alone.
\<close>

theorem move_right_jumps_on_ground:
  "move_right ((default_ball 100 480)\<lparr>on_ground := True\<rparr>) =
     (default_ball 100 480)\<lparr>vel_x := 0.8, vel_y := - 12, on_ground := False\<rparr>
   \<and> move_right_shadowed ((default_ball 100 480)\<lparr>on_ground := True\<rparr>) =
     (default_ball 100 480)\<lparr>vel_x := 0.8, on_ground := True\<rparr>
   \<and> move_left ((default_ball 100 480)\<lparr>on_ground := True\<rparr>) =
     (default_ball 100 480)\<lparr>vel_x := - 0.8, on_ground := True\<rparr>"
  by (simp add: move_right_def move_right_shadowed_def move_left_def default_ball_def)

section \<open>The integration step and the screen\<close>

lemma check_collision_size [simp]: "cust_size (check_collision b p) = cust_size b"
  by (simp add: check_collision_def Let_def)

lemma check_collisions_size [simp]: "cust_size (check_collisions b ps) = cust_size b"
  by (induction ps arbitrary: b) simp_all

lemma screen_boundaries_size [simp]: "cust_size (screen_boundaries cfg b) = cust_size b"
  by (simp add: screen_boundaries_def Let_def)

lemma PlayerBall_update_size [simp]:
  "cust_size (PlayerBall_update cfg pl in_water b) = cust_size b"
  by (simp add: PlayerBall_update_def Let_def)

lemma screen_boundaries_x:
  assumes "2 * cust_size b \<le> SCREEN_WIDTH cfg"
  shows "cust_size b \<le> ball_x (screen_boundaries cfg b) \<and>
         ball_x (screen_boundaries cfg b) \<le> SCREEN_WIDTH cfg - cust_size b"
  using assms by (simp add: screen_boundaries_def Let_def)

lemma screen_boundaries_y:
  assumes "2 * cust_size b \<le> SCREEN_HEIGHT cfg"
  shows "cust_size b \<le> ball_y (screen_boundaries cfg b) \<and>
         ball_y (screen_boundaries cfg b) \<le> SCREEN_HEIGHT cfg - cust_size b"
  using assms by (simp add: screen_boundaries_def Let_def)

lemma screen_boundaries_y_upper:
  "ball_y (screen_boundaries cfg b) \<le> max (cust_size b) (SCREEN_HEIGHT cfg - cust_size b)"
  by (simp add: screen_boundaries_def Let_def)

text \<open>The step ends with the screen block, run on a ball of the same radius.\<close>

lemma PlayerBall_update_ends_clamped:
  "\<exists>b6. PlayerBall_update cfg pl in_water b = screen_boundaries cfg b6 \<and>
     cust_size b6 = cust_size b"
  unfolding PlayerBall_update_def Let_def
  by (rule exI, rule conjI, rule refl) simp

text \<open>
  Claim C6. For every ball whose radius lies in [10,50], after one integration step
  (\<^verbatim>\<open>PlayerBall.update\<close> with any platform list, or none, and any immersion flag) the
  position is within the screen: radius \<open>\<le>\<close> x \<open>\<le>\<close> SCREEN_WIDTH - radius and
  radius \<open>\<le>\<close> y \<open>\<le>\<close> SCREEN_HEIGHT - radius. The two screen constants come from the
  absent module \<^verbatim>\<open>config\<close>; the screen is taken to be at least 100 wide and high, so that
  a ball of the largest radius fits.
\<close>

theorem update_within_screen:
  assumes "10 \<le> cust_size b" and "cust_size b \<le> 50"
    and "100 \<le> SCREEN_WIDTH cfg" and "100 \<le> SCREEN_HEIGHT cfg"
  shows "cust_size b \<le> ball_x (PlayerBall_update cfg pl in_water b) \<and>
         ball_x (PlayerBall_update cfg pl in_water b) \<le> SCREEN_WIDTH cfg - cust_size b \<and>
         cust_size b \<le> ball_y (PlayerBall_update cfg pl in_water b) \<and>
         ball_y (PlayerBall_update cfg pl in_water b) \<le> SCREEN_HEIGHT cfg - cust_size b"
proof -
  obtain b6 where u: "PlayerBall_update cfg pl in_water b = screen_boundaries cfg b6"
    and r: "cust_size b6 = cust_size b"
    using PlayerBall_update_ends_clamped by blast
  have "2 * cust_size b6 \<le> SCREEN_WIDTH cfg" and "2 * cust_size b6 \<le> SCREEN_HEIGHT cfg"
    using assms r by simp_all
  then show ?thesis
    using screen_boundaries_x [of b6 cfg] screen_boundaries_y [of b6 cfg] r u by simp
qed

theorem update_within_screen_witness:
  "10 \<le> cust_size (default_ball 100 50) \<and> cust_size (default_ball 100 50) \<le> 50 \<and>
   100 \<le> SCREEN_WIDTH sample_config \<and> 100 \<le> SCREEN_HEIGHT sample_config \<and>
   20 \<le> ball_x (PlayerBall_update sample_config (Some level1_platforms) False
                   (default_ball 100 50)) \<and>
   ball_x (PlayerBall_update sample_config (Some level1_platforms) False
             (default_ball 100 50)) \<le> 780 \<and>
   20 \<le> ball_y (PlayerBall_update sample_config (Some level1_platforms) False
                   (default_ball 100 50)) \<and>
   ball_y (PlayerBall_update sample_config (Some level1_platforms) False
             (default_ball 100 50)) \<le> 580"
  using update_within_screen
          [of "default_ball 100 50" sample_config "Some level1_platforms" False]
  by (simp add: default_ball_def sample_config_def)

text \<open>
  Claim C10. For every ball whose radius lies in [10,50], after \<^verbatim>\<open>PlayerBall.update\<close>
  the caller's test \<^verbatim>\<open>self.player.y > SCREEN_HEIGHT + 100\<close> is false, so the death branch
  of the frame is taken only on the result \<^verbatim>\<open>'player_dead'\<close>: the frame is the frame
  without the fall-off test. The screen height, a constant of the absent module
  \<^verbatim>\<open>config\<close>, is taken to be non-negative.
\<close>

theorem fall_off_world_unreachable:
  assumes "10 \<le> cust_size player" and "cust_size player \<le> 50"
    and "0 \<le> SCREEN_HEIGHT cfg"
  shows "\<not> fell_off_world cfg (PlayerBall_update cfg pl in_water player) \<and>
     Game_update cfg lm player =
       (let in_water = in_water_test lm player;
            player1 = PlayerBall_update cfg (Some (map (heap lm) (platforms lm))) in_water
                        player
        in case LevelManager_update lm player1 of
             Inl e \<Rightarrow> Inl e
           | Inr (result, lm1) \<Rightarrow>
               Inr (if result = Some ''level_complete'' then LevelCompleteBranch
                    else if result = Some ''player_dead'' then DeathBranch
                    else NoBranch,
                    player1, lm1))"
proof -
  have a: "\<not> fell_off_world cfg (PlayerBall_update cfg ps w player)" for ps w
  proof -
    obtain b6 where u: "PlayerBall_update cfg ps w player = screen_boundaries cfg b6"
      and r: "cust_size b6 = cust_size player"
      using PlayerBall_update_ends_clamped by blast
    have "ball_y (screen_boundaries cfg b6)
            \<le> max (cust_size b6) (SCREEN_HEIGHT cfg - cust_size b6)"
      by (rule screen_boundaries_y_upper)
    with assms r have "ball_y (screen_boundaries cfg b6) \<le> SCREEN_HEIGHT cfg + 100"
      by (simp add: max_def split: if_splits)
    with u show ?thesis by (simp add: fell_off_world_def)
  qed
  show ?thesis
    by (simp add: a Game_update_def Let_def split: sum.split prod.split)
qed

theorem fall_off_world_unreachable_witness:
  "10 \<le> cust_size (default_ball 100 400) \<and> cust_size (default_ball 100 400) \<le> 50 \<and>
   0 \<le> SCREEN_HEIGHT sample_config \<and>
   \<not> fell_off_world sample_config
        (PlayerBall_update sample_config (Some level3_platforms) False (default_ball 100 400))"
  using fall_off_world_unreachable
          [of "default_ball 100 400" sample_config "Some level3_platforms" False]
  by (simp add: default_ball_def sample_config_def)

section \<open>Loading a level\<close>

lemma dom_levels_init: "dom (levels LevelManager_init) = {1, 2, 3}"
  by (auto simp: LevelManager_init_def)

lemma load_level_levels [simp]: "levels (snd (load_level n lm)) = levels lm"
  by (simp add: load_level_def split: option.split)

lemma LevelManager_update_levels:
  "LevelManager_update lm player = Inr (result, lm1) \<Longrightarrow> levels lm1 = levels lm"
  by (auto simp: LevelManager_update_def Let_def split: sum.splits)

text \<open>
  Claim C5. For every level id outside the predefined set {1,2,3}, \<^verbatim>\<open>load_level\<close>
  returns \<^verbatim>\<open>None\<close> and leaves the whole state of the level manager as it was; it
  raises nothing (the model of \<^verbatim>\<open>load_level\<close> has no error value). The keys of
  \<^verbatim>\<open>self.levels\<close> are 1, 2 and 3 from \<^verbatim>\<open>load_levels\<close> on, and neither
  \<^verbatim>\<open>load_level\<close> nor \<^verbatim>\<open>update\<close> changes them.
\<close>

theorem load_level_unknown:
  assumes "level_num \<notin> {1, 2, 3}" and "dom (levels lm) = {1, 2, 3}"
  shows "load_level level_num lm = (None, lm)"
proof -
  from assms have "level_num \<notin> dom (levels lm)" by simp
  then have "levels lm level_num = None" by (simp add: domIff)
  then show ?thesis by (simp add: load_level_def)
qed

theorem load_level_unknown_witness:
  "(4::int) \<notin> {1, 2, 3} \<and> dom (levels LevelManager_init) = {1, 2, 3} \<and>
   load_level 4 LevelManager_init = (None, LevelManager_init)"
  using load_level_unknown [of 4 LevelManager_init] dom_levels_init by simp

section \<open>The proximity test\<close>

subsection \<open>Rounding to a double\<close>

lemma round_half_even_int [simp]: "round_half_even (of_int j) = j"
  by (simp add: round_half_even_def)

lemma double_round_at:
  assumes "2 powr of_int L \<le> \<bar>x\<bar>" and "\<bar>x\<bar> < 2 powr of_int (L + 1)"
  shows "double_round x =
           of_int (round_half_even (x / 2 powr of_int (L - 52))) * 2 powr of_int (L - 52)"
proof -
  from assms(1) have x: "0 < \<bar>x\<bar>"
    by (smt (verit) powr_gt_zero)
  have "\<lfloor>log 2 \<bar>x\<bar>\<rfloor> = L"
    using floor_log_eq_powr_iff [of "\<bar>x\<bar>" 2 L] x assms by simp
  with x show ?thesis by (simp add: double_round_def)
qed

lemma two_powr_neg: "(2::real) powr of_int (- int j) = 1 / 2 ^ j"
  by (simp add: powr_minus powr_realpow inverse_eq_divide)

text \<open>A multiple of \<open>1 / 2 ^ n\<close> with a numerator below \<open>2 ^ 53\<close> is a double.\<close>

lemma double_round_dyadic:
  assumes "\<bar>m\<bar> < 2 ^ 53"
  shows "double_round (of_int m / 2 ^ n) = of_int m / 2 ^ n"
proof (cases "m = 0")
  case True
  then show ?thesis by (simp add: double_round_def)
next
  case False
  define v :: real where "v = of_int m / 2 ^ n"
  define L where "L = \<lfloor>log 2 \<bar>v\<bar>\<rfloor>"
  from False have v: "0 < \<bar>v\<bar>" by (simp add: v_def)
  have b: "2 powr of_int L \<le> \<bar>v\<bar>" "\<bar>v\<bar> < 2 powr (of_int L + 1)"
    using floor_log_eq_powr_iff [of "\<bar>v\<bar>" 2 L] v by (simp_all add: L_def)
  have "\<bar>v\<bar> < 2 ^ 53 / 2 ^ n"
  proof -
    from assms have "\<bar>of_int m :: real\<bar> < 2 ^ 53"
      by (metis of_int_abs of_int_less_numeral_power_cancel_iff)
    then show ?thesis by (simp add: v_def divide_strict_right_mono abs_divide)
  qed
  also have "\<dots> = 2 powr (53 - real n)"
    by (simp add: powr_diff powr_realpow)
  finally have "\<bar>v\<bar> < 2 powr (53 - real n)" .
  with b(1) have "(2::real) powr of_int L < 2 powr (53 - real n)" by linarith
  then have "of_int L < 53 - real n" by simp
  then have Ln: "L + int n \<le> 52" by linarith
  define k where "k = nat (52 - L - int n)"
  have e: "L - 52 = - int (n + k)" using Ln by (simp add: k_def)
  have q: "v / 2 powr of_int (L - 52) = of_int (m * 2 ^ k)"
    unfolding e two_powr_neg by (simp add: v_def power_add)
  have "double_round v =
          of_int (round_half_even (v / 2 powr of_int (L - 52))) * 2 powr of_int (L - 52)"
    using v by (simp add: double_round_def L_def)
  also have "\<dots> = of_int (m * 2 ^ k) * 2 powr of_int (L - 52)"
    unfolding q by (simp only: round_half_even_int)
  also have "\<dots> = v"
    unfolding e two_powr_neg by (simp add: v_def power_add)
  finally show ?thesis by (simp add: v_def)
qed

lemma double_round_exact:
  assumes "v = of_int m / 2 ^ n" and "\<bar>m\<bar> < 2 ^ 53"
  shows "double_round v = v"
  using double_round_dyadic [OF assms(2), of n] assms(1) by simp

lemma double_round_int: "\<bar>k\<bar> < 2 ^ 53 \<Longrightarrow> double_round (of_int k) = of_int k"
  using double_round_dyadic [of k 0] by simp

text \<open>Between \<open>2 ^ 53\<close> and \<open>2 ^ 54\<close> the doubles are the even integers.\<close>

lemma double_round_above_2_53:
  assumes "9007199254740992 \<le> x" and "x < 18014398509481984"
  shows "double_round x = of_int (round_half_even (x / 2)) * 2"
proof -
  have "(2::real) powr of_int 53 = 9007199254740992"
    and "(2::real) powr of_int (53 + 1) = 18014398509481984"
    by (simp_all add: powr_realpow [of 2 53, simplified] powr_realpow [of 2 54, simplified])
  with assms have "2 powr of_int 53 \<le> \<bar>x\<bar>" and "\<bar>x\<bar> < 2 powr of_int (53 + 1)"
    by simp_all
  then show ?thesis using double_round_at [of 53 x] by simp
qed

lemma double_round_small:
  "double_round 0 = 0" "double_round 20 = 20" "double_round 25 = 25" "double_round 44 = 44"
  "double_round 45 = 45" "double_round 46 = 46" "double_round 150 = 150"
  "double_round 175 = 175" "double_round 221 = 221"
  using double_round_int [of 20] double_round_int [of 25] double_round_int [of 44]
    double_round_int [of 45] double_round_int [of 46] double_round_int [of 150]
    double_round_int [of 175] double_round_int [of 221]
  by (simp_all add: double_round_def)

lemma double_round_large:
  "double_round 9007199254741142 = 9007199254741142"
  "double_round 9007199254741167 = 9007199254741168"
  "double_round 9007199254741213 = 9007199254741212"
  by (simp_all add: double_round_above_2_53 round_half_even_def)

subsection \<open>Exact additions\<close>

lemma dyadicE:
  assumes "dyadic n a"
  obtains m where "\<bar>m\<bar> \<le> 2 ^ 50" and "num_val a = of_int m / 2 ^ n"
proof -
  define m where "m = \<lfloor>num_val a * 2 ^ n\<rfloor>"
  from assms have q: "num_val a * 2 ^ n = of_int m" and b: "\<bar>num_val a * 2 ^ n\<bar> \<le> 2 ^ 50"
    by (simp_all add: dyadic_def Let_def m_def)
  from q b have "\<bar>of_int m :: real\<bar> \<le> 2 ^ 50" by simp
  then have "\<bar>m\<bar> \<le> 2 ^ 50"
    by (metis of_int_abs of_int_le_numeral_power_cancel_iff)
  moreover from q have "num_val a = of_int m / 2 ^ n"
    by (simp add: field_simps)
  ultimately show thesis by (rule that)
qed

lemma to_float_dyadic: "dyadic n a \<Longrightarrow> to_float a = num_val a"
proof (cases a)
  case (PyInt k)
  assume "dyadic n a"
  then obtain m where m: "\<bar>m\<bar> \<le> 2 ^ 50" "num_val a = of_int m / 2 ^ n" by (rule dyadicE)
  from m(1) have "\<bar>m\<bar> < 2 ^ 53" by simp
  with m(2) have "double_round (num_val a) = num_val a" by (rule double_round_exact)
  with PyInt show ?thesis by simp
qed simp

lemma py_half_val: "py_half a = PyFloat (double_round (num_val a / 2))"
  by (cases a) simp_all

lemma py_add_float: "py_add a (PyFloat y) = PyFloat (double_round (to_float a + y))"
  by (cases a) simp_all

lemma py_sub_float: "py_sub a (PyFloat y) = PyFloat (double_round (to_float a - y))"
  by (cases a) simp_all

lemma to_float_py_add:
  assumes "dyadic n a" and "dyadic n b"
  shows "to_float (py_add a b) = num_val a + num_val b"
proof -
  from assms(1) obtain ma where ma: "\<bar>ma\<bar> \<le> 2 ^ 50" "num_val a = of_int ma / 2 ^ n"
    by (rule dyadicE)
  from assms(2) obtain mb where mb: "\<bar>mb\<bar> \<le> 2 ^ 50" "num_val b = of_int mb / 2 ^ n"
    by (rule dyadicE)
  have s: "num_val a + num_val b = of_int (ma + mb) / 2 ^ n"
    by (simp add: ma(2) mb(2) add_divide_distrib)
  from ma(1) mb(1) have "\<bar>ma + mb\<bar> < 2 ^ 53" by simp
  with s have e: "double_round (num_val a + num_val b) = num_val a + num_val b"
    by (rule double_round_exact)
  have fa: "to_float a = num_val a" and fb: "to_float b = num_val b"
    using assms by (simp_all add: to_float_dyadic)
  show ?thesis
  proof (cases a)
    case (PyInt i)
    note a = this
    show ?thesis
    proof (cases b)
      case (PyInt j)
      with a e show ?thesis by simp
    next
      case (PyFloat y)
      with a e fa show ?thesis by simp
    qed
  next
    case (PyFloat x)
    with e fb show ?thesis by simp
  qed
qed

text \<open>The centre coordinate \<^verbatim>\<open>x + width/2\<close> of a rectangle, moved or not, is computed exactly.\<close>

lemma centre_exact:
  assumes "dyadic n x" and "dyadic n w" and "dyadic n t"
  shows "py_add (py_add x t) (py_half w) = PyFloat (num_val x + num_val t + num_val w / 2)"
    and "py_add x (py_half w) = PyFloat (num_val x + num_val w / 2)"
proof -
  from assms(1) obtain mx where mx: "\<bar>mx\<bar> \<le> 2 ^ 50" "num_val x = of_int mx / 2 ^ n"
    by (rule dyadicE)
  from assms(2) obtain mw where mw: "\<bar>mw\<bar> \<le> 2 ^ 50" "num_val w = of_int mw / 2 ^ n"
    by (rule dyadicE)
  from assms(3) obtain mt where mt: "\<bar>mt\<bar> \<le> 2 ^ 50" "num_val t = of_int mt / 2 ^ n"
    by (rule dyadicE)
  have "num_val w / 2 = of_int mw / 2 ^ Suc n" by (simp add: mw(2))
  moreover from mw(1) have "\<bar>mw\<bar> < 2 ^ 53" by simp
  ultimately have h: "double_round (num_val w / 2) = num_val w / 2"
    by (rule double_round_exact)
  have "num_val x + num_val t + num_val w / 2 = of_int (2 * mx + 2 * mt + mw) / 2 ^ Suc n"
    by (simp add: mx(2) mt(2) mw(2) field_simps)
  moreover from mx(1) mt(1) mw(1) have "\<bar>2 * mx + 2 * mt + mw\<bar> < 2 ^ 53" by simp
  ultimately have s1: "double_round (num_val x + num_val t + num_val w / 2) =
      num_val x + num_val t + num_val w / 2"
    by (rule double_round_exact)
  have "num_val x + num_val w / 2 = of_int (2 * mx + mw) / 2 ^ Suc n"
    by (simp add: mx(2) mw(2) field_simps)
  moreover from mx(1) mw(1) have "\<bar>2 * mx + mw\<bar> < 2 ^ 53" by simp
  ultimately have s2: "double_round (num_val x + num_val w / 2) = num_val x + num_val w / 2"
    by (rule double_round_exact)
  show "py_add (py_add x t) (py_half w) = PyFloat (num_val x + num_val t + num_val w / 2)"
    by (simp add: py_half_val py_add_float h s1 to_float_py_add [OF assms(1) assms(3)])
  show "py_add x (py_half w) = PyFloat (num_val x + num_val w / 2)"
    by (simp add: py_half_val py_add_float h s2 to_float_dyadic [OF assms(1)])
qed

text \<open>So the offset of the ball from the centre is the same double before and after the move.\<close>

lemma offset_translate:
  assumes "dyadic n c" and "dyadic n x" and "dyadic n w" and "dyadic n t"
  shows "py_sub (py_add c t) (py_add (py_add x t) (py_half w)) =
         py_sub c (py_add x (py_half w))"
proof -
  have d: "to_float (py_add c t) - (num_val x + num_val t + num_val w / 2) =
        to_float c - (num_val x + num_val w / 2)"
    by (simp add: to_float_py_add [OF assms(1) assms(4)] to_float_dyadic [OF assms(1)])
  show ?thesis
    unfolding centre_exact [OF assms(2) assms(3) assms(4)] py_sub_float d ..
qed

lemma translate_py_dict_sel:
  "n_x (translate_py_dict tx ty d) = py_add (n_x d) tx"
  "n_y (translate_py_dict tx ty d) = py_add (n_y d) ty"
  "n_width (translate_py_dict tx ty d) = n_width d"
  "n_height (translate_py_dict tx ty d) = n_height d"
  by (simp_all add: translate_py_dict_def)

lemma translate_py_ball_sel:
  "n_ball_x (translate_py_ball tx ty b) = py_add (n_ball_x b) tx"
  "n_ball_y (translate_py_ball tx ty b) = py_add (n_ball_y b) ty"
  "n_size (translate_py_ball tx ty b) = n_size b"
  by (simp_all add: translate_py_ball_def)

lemma offsets_translate:
  assumes "dyadic n tx" and "dyadic n ty"
    and "dyadic n (n_ball_x b)" and "dyadic n (n_ball_y b)" and "dyadic_rect n d"
  shows "py_sub (py_add (n_ball_x b) tx) (py_add (py_add (n_x d) tx) (py_half (n_width d))) =
         py_sub (n_ball_x b) (py_add (n_x d) (py_half (n_width d)))"
    and "py_sub (py_add (n_ball_y b) ty) (py_add (py_add (n_y d) ty) (py_half (n_height d))) =
         py_sub (n_ball_y b) (py_add (n_y d) (py_half (n_height d)))"
  using assms by (simp_all add: dyadic_rect_def offset_translate)

lemma enemy_loop_double_translate:
  assumes "dyadic n tx" and "dyadic n ty"
    and "dyadic n (n_ball_x b)" and "dyadic n (n_ball_y b)"
    and "list_all (dyadic_rect n) es"
  shows "check_enemy_collision_double (map (translate_py_dict tx ty) es)
           (translate_py_ball tx ty b) =
         check_enemy_collision_double es b"
  using assms(5)
proof (induction es)
  case Nil
  show ?case by simp
next
  case (Cons d es)
  then have d: "dyadic_rect n d" and es: "list_all (dyadic_rect n) es" by simp_all
  note o = offsets_translate [OF assms(1-4) d]
  show ?case
    using Cons.IH [OF es]
    by (simp only: list.map check_enemy_collision_double.simps o translate_py_dict_sel
          translate_py_ball_sel)
qed

text \<open>
  Claim C9, as amended. The four-branch proximity test of the goal check and of the
  enemy check is invariant under the translations whose additions are exact: when the
  coordinates of the ball's centre, the positions and extents of the rectangles (the
  goal, and every enemy) and the two components of the translation are multiples of one
  \<open>1 / 2 ^ n\<close> with numerators of magnitude at most \<open>2 ^ 50\<close> (integers up to
  \<open>2 ^ 50\<close> among them), moving the centre and the rectangles by the vector leaves the
  outcome of \<^verbatim>\<open>check_goal_collision\<close> and of \<^verbatim>\<open>check_enemy_collision\<close> unchanged, for
  every radius. It does not hold for every translation vector, since the test computes in
  doubles.
\<close>

theorem proximity_translation_invariant_exact:
  assumes "dyadic n tx" and "dyadic n ty"
    and "dyadic n (n_ball_x b)" and "dyadic n (n_ball_y b)"
    and "case gl of None \<Rightarrow> True | Some g \<Rightarrow> dyadic_rect n g"
    and "list_all (dyadic_rect n) es"
  shows "check_goal_collision_double (map_option (translate_py_dict tx ty) gl)
           (translate_py_ball tx ty b) =
         check_goal_collision_double gl b \<and>
         check_enemy_collision_double (map (translate_py_dict tx ty) es)
           (translate_py_ball tx ty b) =
         check_enemy_collision_double es b"
proof
  show "check_goal_collision_double (map_option (translate_py_dict tx ty) gl)
           (translate_py_ball tx ty b) =
         check_goal_collision_double gl b"
  proof (cases gl)
    case None
    then show ?thesis by (simp add: check_goal_collision_double_def)
  next
    case (Some g)
    with assms(5) have g: "dyadic_rect n g" by simp
    note o = offsets_translate [OF assms(1-4) g]
    show ?thesis
      unfolding Some check_goal_collision_double_def option.map option.case
      by (simp only: o translate_py_dict_sel translate_py_ball_sel)
  qed
next
  show "check_enemy_collision_double (map (translate_py_dict tx ty) es)
           (translate_py_ball tx ty b) =
         check_enemy_collision_double es b"
    by (rule enemy_loop_double_translate [OF assms(1-4) assms(6)])
qed

theorem proximity_translation_invariant_exact_witness:
  "dyadic 0 (PyInt 100) \<and> dyadic 0 (PyInt 50) \<and>
   dyadic 0 (n_ball_x ball_right_of_goal) \<and> dyadic 0 (n_ball_y ball_right_of_goal) \<and>
   dyadic_rect 0 level1_goal_numbers \<and>
   check_goal_collision_double
     (map_option (translate_py_dict (PyInt 100) (PyInt 50)) (Some level1_goal_numbers))
     (translate_py_ball (PyInt 100) (PyInt 50) ball_right_of_goal) =
   check_goal_collision_double (Some level1_goal_numbers) ball_right_of_goal \<and>
   check_enemy_collision_double
     (map (translate_py_dict (PyInt 100) (PyInt 50)) [level1_goal_numbers])
     (translate_py_ball (PyInt 100) (PyInt 50) ball_right_of_goal) =
   check_enemy_collision_double [level1_goal_numbers] ball_right_of_goal"
proof -
  have h: "dyadic 0 (PyInt 100)" "dyadic 0 (PyInt 50)"
    "dyadic 0 (n_ball_x ball_right_of_goal)" "dyadic 0 (n_ball_y ball_right_of_goal)"
    "dyadic_rect 0 level1_goal_numbers"
    by (simp_all add: dyadic_def dyadic_rect_def ball_right_of_goal_def
          level1_goal_numbers_def)
  have g: "case Some level1_goal_numbers of None \<Rightarrow> True | Some g \<Rightarrow> dyadic_rect 0 g"
    and e: "list_all (dyadic_rect 0) [level1_goal_numbers]"
    using h(5) by simp_all
  show ?thesis
    using proximity_translation_invariant_exact [OF h(1-4) g e] h by simp
qed

text \<open>
  The claim as stated fails on the goal of level 1 and a ball of radius 20 at (221, 175):
  the test is false (\<open>dx = 46 > 45\<close>), and after centre and rectangle are moved by
  \<open>(2 ^ 53, 0)\<close> it is true: the centre \<open>2 ^ 53 + 175\<close> of the goal rounds to
  \<open>2 ^ 53 + 176\<close> and the ball's \<open>2 ^ 53 + 221\<close> to \<open>2 ^ 53 + 220\<close>, so that
  \<open>dx = 44\<close>. The same rectangle as the one enemy of a list gives the same two outcomes.
\<close>

theorem proximity_changes_under_translation:
  "\<not> check_goal_collision_double (Some level1_goal_numbers) ball_right_of_goal \<and>
   check_goal_collision_double
     (map_option (translate_py_dict (PyInt 9007199254740992) (PyInt 0))
        (Some level1_goal_numbers))
     (translate_py_ball (PyInt 9007199254740992) (PyInt 0) ball_right_of_goal) \<and>
   \<not> check_enemy_collision_double [level1_goal_numbers] ball_right_of_goal \<and>
   check_enemy_collision_double
     (map (translate_py_dict (PyInt 9007199254740992) (PyInt 0)) [level1_goal_numbers])
     (translate_py_ball (PyInt 9007199254740992) (PyInt 0) ball_right_of_goal)"
  by (simp add: check_goal_collision_double_def level1_goal_numbers_def ball_right_of_goal_def
        translate_py_dict_def translate_py_ball_def py_gt_def py_le_def double_round_small
        double_round_large Let_def)

section \<open>Moving platforms and patrolling enemies\<close>

text \<open>
  On a list of addresses without repetition, each loop runs its body once on every
  dictionary of the list and leaves the rest of the heap alone.
\<close>

lemma update_platforms_outside:
  "update_platforms as h = Inr h' \<Longrightarrow> a \<notin> set as \<Longrightarrow> h' a = h a"
proof (induction as arbitrary: h)
  case Nil
  then show ?case by simp
next
  case (Cons b as)
  then show ?case by (auto split: sum.splits)
qed

lemma update_platforms_inside:
  "update_platforms as h = Inr h' \<Longrightarrow> distinct as \<Longrightarrow> a \<in> set as \<Longrightarrow>
   update_platform (h a) = Inr (h' a)"
proof (induction as arbitrary: h)
  case Nil
  then show ?case by simp
next
  case (Cons b as)
  from Cons.prems(1) obtain p where p: "update_platform (h b) = Inr p"
    and rest: "update_platforms as (h(b := p)) = Inr h'"
    by (auto split: sum.splits)
  show ?case
  proof (cases "a = b")
    case True
    with Cons.prems(2) have "a \<notin> set as" by simp
    with rest have "h' a = (h(b := p)) a" by (rule update_platforms_outside)
    with True p show ?thesis by simp
  next
    case False
    with Cons.prems have "a \<in> set as" and "distinct as" by simp_all
    with rest have "update_platform ((h(b := p)) a) = Inr (h' a)"
      using Cons.IH by blast
    with False show ?thesis by simp
  qed
qed


lemma update_enemies_outside: "a \<notin> set as \<Longrightarrow> update_enemies as h a = h a"
  by (induction as arbitrary: h) auto

lemma update_enemies_inside:
  "distinct as \<Longrightarrow> a \<in> set as \<Longrightarrow> update_enemies as h a = update_enemy (h a)"
  by (induction as arbitrary: h) (auto simp: update_enemies_outside)

text \<open>
  Claim C7, as amended. For every moving platform with \<open>start_x \<le> end_x\<close> (whatever
  its speed), a step of the platform loop succeeds and leaves \<open>start_x \<le> x \<le> end_x\<close>,
  with type and bounds unchanged. The speed is negated, and x snapped to the bound,
  exactly when the advanced position \<open>x + speed\<close> lies strictly beyond a bound: above
  \<open>end_x\<close>, or else below \<open>start_x\<close>. Otherwise x is the advanced position and the
  speed is kept; this includes an advanced position that lands exactly on a bound.
\<close>

theorem moving_platform_step:
  assumes "k_type p = Some ''moving''" and "k_start_x p = Some s" and "k_end_x p = Some e"
    and "k_speed p = Some v" and "s \<le> e"
  shows "\<exists>p'. update_platform p = Inr p' \<and> s \<le> k_x p' \<and> k_x p' \<le> e \<and>
     k_type p' = Some ''moving'' \<and> k_start_x p' = Some s \<and> k_end_x p' = Some e \<and>
     (if k_x p + v > e then k_x p' = e \<and> k_speed p' = Some (- v)
      else if k_x p + v < s then k_x p' = s \<and> k_speed p' = Some (- v)
      else k_x p' = k_x p + v \<and> k_speed p' = Some v)"
  using assms by (simp add: update_platform_def Let_def)

theorem moving_platform_step_witness:
  "k_type (level3_platforms ! 6) = Some ''moving'' \<and>
   k_start_x (level3_platforms ! 6) = Some 200 \<and>
   k_end_x (level3_platforms ! 6) = Some 400 \<and>
   k_speed (level3_platforms ! 6) = Some 1 \<and> (200::real) \<le> 400 \<and>
   (\<exists>p'. update_platform (level3_platforms ! 6) = Inr p' \<and> 200 \<le> k_x p' \<and> k_x p' \<le> 400 \<and>
      k_x p' = 201 \<and> k_speed p' = Some 1)"
  using moving_platform_step [of "level3_platforms ! 6" 200 400 1]
  by (auto simp: level3_platforms_def rect_dict_def)

text \<open>
  The claim as stated fails on the moving platform of level 3 one pixel before its
  upper bound: the step puts it on \<open>end_x = 400\<close> and keeps the speed \<open>+1\<close>.
\<close>

theorem moving_platform_lands_on_bound:
  "update_platform ((level3_platforms ! 6)\<lparr>k_x := 399\<rparr>) =
     Inr ((level3_platforms ! 6)\<lparr>k_x := 400\<rparr>) \<and>
   \<not> speed_negated_iff_at_bound ((level3_platforms ! 6)\<lparr>k_x := 399\<rparr>)
        ((level3_platforms ! 6)\<lparr>k_x := 400\<rparr>)"
  by (simp add: update_platform_def level3_platforms_def rect_dict_def Let_def
        speed_negated_iff_at_bound_def)

text \<open>
  Claim C8, as amended. For every patrolling enemy whose x is within
  \<open>[patrol_low, patrol_high]\<close> and whose speed is +1 or -1 (an absent \<^verbatim>\<open>speed\<close> key
  counts as the default +1, as in every enemy literal), a step of the enemy loop keeps x
  within the patrol range and the speed among +1 and -1. When the advanced position
  \<open>x + speed\<close> lies strictly above the high bound, x is snapped to it and the speed set
  to -1; when it lies strictly below the low bound, x is snapped to it and the speed set
  to +1; otherwise x is the advanced position and the speed is kept, also when the
  advanced position is exactly a bound.
\<close>

theorem enemy_patrol_step:
  assumes "k_patrol en = Some (lo, hi)" and "lo \<le> k_x en" and "k_x en \<le> hi"
    and "k_speed en = None \<or> k_speed en = Some 1 \<or> k_speed en = Some (- 1)"
  shows "lo \<le> k_x (update_enemy en) \<and> k_x (update_enemy en) \<le> hi \<and>
     k_patrol (update_enemy en) = Some (lo, hi) \<and>
     (k_speed (update_enemy en) = None \<or> k_speed (update_enemy en) = Some 1 \<or>
      k_speed (update_enemy en) = Some (- 1)) \<and>
     (let v = (case k_speed en of None \<Rightarrow> 1 | Some w \<Rightarrow> w)
      in if k_x en + v > hi then
           k_x (update_enemy en) = hi \<and> k_speed (update_enemy en) = Some (- 1)
         else if k_x en + v < lo then
           k_x (update_enemy en) = lo \<and> k_speed (update_enemy en) = Some 1
         else k_x (update_enemy en) = k_x en + v \<and> k_speed (update_enemy en) = k_speed en)"
  using assms by (auto simp: update_enemy_def Let_def)

theorem enemy_patrol_step_witness:
  "k_patrol ((level2_enemies ! 0)\<lparr>k_x := 250\<rparr>) = Some (150, 250) \<and>
   150 \<le> k_x ((level2_enemies ! 0)\<lparr>k_x := 250\<rparr>) \<and>
   k_x ((level2_enemies ! 0)\<lparr>k_x := 250\<rparr>) \<le> 250 \<and>
   k_speed ((level2_enemies ! 0)\<lparr>k_x := 250\<rparr>) = None \<and>
   k_x (update_enemy ((level2_enemies ! 0)\<lparr>k_x := 250\<rparr>)) = 250 \<and>
   k_speed (update_enemy ((level2_enemies ! 0)\<lparr>k_x := 250\<rparr>)) = Some (- 1)"
  using enemy_patrol_step [of "(level2_enemies ! 0)\<lparr>k_x := 250\<rparr>" 150 250]
  by (simp add: level2_enemies_def rect_dict_def)

text \<open>
  The claim as stated fails on the enemy of level 2 one pixel before its high bound: the
  step puts it on the bound 250 and does not set the speed to -1 (the key stays absent,
  so the enemy still moves by +1).
\<close>

theorem enemy_lands_on_bound:
  "k_patrol ((level2_enemies ! 0)\<lparr>k_x := 249\<rparr>) = Some (150, 250) \<and>
   k_x (update_enemy ((level2_enemies ! 0)\<lparr>k_x := 249\<rparr>)) = 250 \<and>
   k_speed (update_enemy ((level2_enemies ! 0)\<lparr>k_x := 249\<rparr>)) \<noteq> Some (- 1)"
  by (simp add: update_enemy_def level2_enemies_def rect_dict_def Let_def)

section \<open>Frames of levels 2 and 3\<close>

lemma sqrt_le_radius: "0 \<le> r \<Longrightarrow> (sqrt a \<le> r) = (a \<le> r\<^sup>2)"
proof -
  assume r: "0 \<le> r"
  have "(sqrt a \<le> sqrt (r\<^sup>2)) = (a \<le> r\<^sup>2)" by (rule real_sqrt_le_iff)
  with r show ?thesis by simp
qed

lemmas heap_defs = load_levels_heap_def level1_platforms_def level2_platforms_def
  level2_enemies_def level3_platforms_def level3_enemies_def

lemma heap_at_level2:
  "load_levels_heap 5 = level2_platforms ! 0" "load_levels_heap 6 = level2_platforms ! 1"
  "load_levels_heap 7 = level2_platforms ! 2" "load_levels_heap 8 = level2_platforms ! 3"
  "load_levels_heap 9 = level2_platforms ! 4" "load_levels_heap 10 = level2_platforms ! 5"
  "load_levels_heap 11 = level2_enemies ! 0"
  by (simp_all add: heap_defs)

lemma heap_at_level3:
  "load_levels_heap 12 = level3_platforms ! 0" "load_levels_heap 13 = level3_platforms ! 1"
  "load_levels_heap 14 = level3_platforms ! 2" "load_levels_heap 15 = level3_platforms ! 3"
  "load_levels_heap 16 = level3_platforms ! 4" "load_levels_heap 17 = level3_platforms ! 5"
  "load_levels_heap 18 = level3_platforms ! 6" "load_levels_heap 19 = level3_platforms ! 7"
  "load_levels_heap 20 = level3_enemies ! 0" "load_levels_heap 21 = level3_enemies ! 1"
  by (simp_all add: heap_defs)

text \<open>A platform that is not of type moving is passed over by the platform loop.\<close>

lemma update_platforms_skip:
  "k_type (h a) \<noteq> Some ''moving'' \<Longrightarrow> update_platforms (a # as) h = update_platforms as h"
  by (simp add: update_platform_def)

lemma LevelManager_update_eval:
  assumes "update_platforms (platforms lm) (heap lm) = Inr h1"
    and "update_enemies (enemies lm) h1 = h2"
  shows "LevelManager_update lm player =
     Inr (if check_goal_collision (lm\<lparr>heap := h2\<rparr>) player then Some ''level_complete''
          else if check_enemy_collision (lm\<lparr>heap := h2\<rparr>) player then Some ''player_dead''
          else None,
          lm\<lparr>heap := h2\<rparr>)"
  using assms by (simp add: LevelManager_update_def Let_def)

text \<open>
  Level 2, a ball of the default radius 20 above the water surface, falling at 9.5
  pixels per frame: the integration step with the level's platforms and without the
  water platform.
\<close>

lemma level2_step_with_water:
  "PlayerBall_update sample_config (Some level2_platforms) False
     ((default_ball 400 470)\<lparr>vel_y := 9.5\<rparr>)
    = (default_ball 400 480)\<lparr>vel_y := - 7, on_ground := True\<rparr>"
  by (simp add: PlayerBall_update_def sample_config_def default_ball_def
        level2_platforms_def rect_dict_def check_collision_def screen_boundaries_def
        sqrt_le_radius Let_def)

lemma level2_step_without_water:
  "PlayerBall_update sample_config (Some (without_water level2_platforms)) False
     ((default_ball 400 470)\<lparr>vel_y := 9.5\<rparr>)
    = (default_ball 400 480)\<lparr>vel_y := 10\<rparr>"
  by (simp add: PlayerBall_update_def sample_config_def default_ball_def
        level2_platforms_def without_water_def rect_dict_def check_collision_def
        screen_boundaries_def sqrt_le_radius Let_def)

lemma level2_loaded:
  "platforms (snd (load_level 2 LevelManager_init)) = [5, 6, 7, 8, 9, 10]"
  "enemies (snd (load_level 2 LevelManager_init)) = [11]"
  "heap (snd (load_level 2 LevelManager_init)) = load_levels_heap"
  "goal (snd (load_level 2 LevelManager_init)) = Some (rect_dict 675 250 50 50 (255, 215, 0))"
  by (simp_all add: load_level_def LevelManager_init_def level2_def)

lemma level2_active_platforms:
  "map (heap (snd (load_level 2 LevelManager_init)))
     (platforms (snd (load_level 2 LevelManager_init))) = level2_platforms"
  by (simp add: level2_loaded heap_at_level2 level2_platforms_def)

lemma level2_not_in_water:
  "in_water_test (snd (load_level 2 LevelManager_init))
     ((default_ball 400 470)\<lparr>vel_y := 9.5\<rparr>) = False"
  by (simp add: in_water_test_def get_water_platforms_def level2_loaded heap_at_level2
        level2_platforms_def rect_dict_def default_ball_def)

lemma level2_update:
  "LevelManager_update (snd (load_level 2 LevelManager_init))
       ((default_ball 400 480)\<lparr>vel_y := - 7, on_ground := True\<rparr>) =
     Inr (None, (snd (load_level 2 LevelManager_init))
            \<lparr>heap := load_levels_heap(11 := (level2_enemies ! 0)\<lparr>k_x := 201\<rparr>)\<rparr>)"
proof -
  let ?lm = "snd (load_level 2 LevelManager_init)"
  let ?h2 = "load_levels_heap(11 := (level2_enemies ! 0)\<lparr>k_x := 201\<rparr>)"
  have p: "update_platforms (platforms ?lm) (heap ?lm) = Inr load_levels_heap"
    unfolding level2_loaded
    by (simp add: update_platforms_skip heap_at_level2 level2_platforms_def rect_dict_def
          del: update_platforms.simps(2))
  have e: "update_enemies (enemies ?lm) load_levels_heap = ?h2"
    unfolding level2_loaded
    by (simp add: heap_at_level2 update_enemy_def level2_enemies_def rect_dict_def)
  have g: "\<not> check_goal_collision (?lm\<lparr>heap := ?h2\<rparr>)
              ((default_ball 400 480)\<lparr>vel_y := - 7, on_ground := True\<rparr>)"
    by (simp add: check_goal_collision_def level2_loaded rect_dict_def default_ball_def)
  have c: "\<not> check_enemy_collision (?lm\<lparr>heap := ?h2\<rparr>)
              ((default_ball 400 480)\<lparr>vel_y := - 7, on_ground := True\<rparr>)"
    by (simp add: check_enemy_collision_def level2_loaded level2_enemies_def rect_dict_def
          default_ball_def)
  show ?thesis
    using LevelManager_update_eval [OF p e] g c by simp
qed

lemma level2_Game_update:
  "Game_update sample_config (snd (load_level 2 LevelManager_init))
       ((default_ball 400 470)\<lparr>vel_y := 9.5\<rparr>) =
     Inr (NoBranch, (default_ball 400 480)\<lparr>vel_y := - 7, on_ground := True\<rparr>,
          (snd (load_level 2 LevelManager_init))
            \<lparr>heap := load_levels_heap(11 := (level2_enemies ! 0)\<lparr>k_x := 201\<rparr>)\<rparr>)"
proof -
  have f: "\<not> fell_off_world sample_config
               ((default_ball 400 480)\<lparr>vel_y := - 7, on_ground := True\<rparr>)"
    by (simp add: fell_off_world_def sample_config_def default_ball_def)
  show ?thesis
    unfolding Game_update_def Let_def level2_active_platforms level2_not_in_water
      level2_step_with_water level2_update
    using f by simp
qed

text \<open>Level 3: one update of the level, from the state \<^verbatim>\<open>load_level(3)\<close> leaves.\<close>

lemma level3_loaded:
  "platforms (snd (load_level 3 LevelManager_init)) = [12, 13, 14, 15, 16, 17, 18, 19]"
  "enemies (snd (load_level 3 LevelManager_init)) = [20, 21]"
  "heap (snd (load_level 3 LevelManager_init)) = load_levels_heap"
  "goal (snd (load_level 3 LevelManager_init)) = Some (rect_dict 675 150 50 50 (255, 215, 0))"
  by (simp_all add: load_level_def LevelManager_init_def level3_def)

lemma level3_update:
  "LevelManager_update (snd (load_level 3 LevelManager_init)) (default_ball 100 400) =
     Inr (None, (snd (load_level 3 LevelManager_init))
            \<lparr>heap := load_levels_heap
               (18 := (level3_platforms ! 6)\<lparr>k_x := 201\<rparr>,
                20 := (level3_enemies ! 0)\<lparr>k_x := 401\<rparr>,
                21 := (level3_enemies ! 1)\<lparr>k_x := 601\<rparr>)\<rparr>)"
proof -
  let ?lm = "snd (load_level 3 LevelManager_init)"
  let ?h1 = "load_levels_heap(18 := (level3_platforms ! 6)\<lparr>k_x := 201\<rparr>)"
  let ?h2 = "load_levels_heap
               (18 := (level3_platforms ! 6)\<lparr>k_x := 201\<rparr>,
                20 := (level3_enemies ! 0)\<lparr>k_x := 401\<rparr>,
                21 := (level3_enemies ! 1)\<lparr>k_x := 601\<rparr>)"
  have k: "k_type (load_levels_heap 12) \<noteq> Some ''moving''"
    "k_type (load_levels_heap 13) \<noteq> Some ''moving''"
    "k_type (load_levels_heap 14) \<noteq> Some ''moving''"
    "k_type (load_levels_heap 15) \<noteq> Some ''moving''"
    "k_type (load_levels_heap 16) \<noteq> Some ''moving''"
    "k_type (load_levels_heap 17) \<noteq> Some ''moving''"
    "k_type (load_levels_heap 19) \<noteq> Some ''moving''"
    by (simp_all add: heap_at_level3 level3_platforms_def rect_dict_def)
  have mv: "update_platform (load_levels_heap 18) = Inr ((level3_platforms ! 6)\<lparr>k_x := 201\<rparr>)"
    by (simp add: heap_at_level3 update_platform_def level3_platforms_def rect_dict_def)
  have p: "update_platforms (platforms ?lm) (heap ?lm) = Inr ?h1"
    unfolding level3_loaded
    apply (simp add: update_platforms_skip k del: update_platforms.simps(2))
    apply (subst update_platforms.simps(2))
    apply (simp add: mv update_platforms_skip k del: update_platforms.simps(2))
    done
  have e: "update_enemies (enemies ?lm) ?h1 = ?h2"
    unfolding level3_loaded
    by (simp add: heap_at_level3 update_enemy_def level3_enemies_def rect_dict_def)
  have g: "\<not> check_goal_collision (?lm\<lparr>heap := ?h2\<rparr>) (default_ball 100 400)"
    by (simp add: check_goal_collision_def level3_loaded rect_dict_def default_ball_def)
  have c: "\<not> check_enemy_collision (?lm\<lparr>heap := ?h2\<rparr>) (default_ball 100 400)"
    by (simp add: check_enemy_collision_def level3_loaded level3_enemies_def rect_dict_def
          default_ball_def)
  show ?thesis
    using LevelManager_update_eval [OF p e] g c by simp
qed

section \<open>Reloading a level\<close>

lemma load_level_known:
  "levels lm n = Some lv \<Longrightarrow>
   load_level n lm =
     (Some (lv_start_pos lv),
      lm\<lparr>current_level := n, platforms := lv_platforms lv, enemies := lv_enemies lv,
         goal := Some (lv_goal lv)\<rparr>)"
  by (simp add: load_level_def)

text \<open>
  Claim C2. For a known level id, \<^verbatim>\<open>load_level\<close> replaces the active platforms, enemies
  and goal with fresh copies of the level's blueprint and returns the start position, so
  that reloading a level after its dynamic state has moved restores the blueprint's
  positions. The code returns the start position and makes the level's lists the active
  ones (\<open>load_level_known\<close>), but it copies nothing: the active dictionaries are the
  blueprint's own, and \<^verbatim>\<open>update\<close> has moved them. Level 3 is loaded, updated once and
  loaded again: the moving platform is at 201 and the enemies at 401 and 601, where the
  literals of \<^verbatim>\<open>load_levels\<close> have 200, 400 and 600.
\<close>

theorem reload_keeps_moved_positions:
  "LevelManager_update (snd (load_level 3 LevelManager_init)) (default_ball 100 400) =
     Inr (None, (snd (load_level 3 LevelManager_init))
            \<lparr>heap := load_levels_heap
               (18 := (level3_platforms ! 6)\<lparr>k_x := 201\<rparr>,
                20 := (level3_enemies ! 0)\<lparr>k_x := 401\<rparr>,
                21 := (level3_enemies ! 1)\<lparr>k_x := 601\<rparr>)\<rparr>) \<and>
   (let reloaded = load_level 3 ((snd (load_level 3 LevelManager_init))
            \<lparr>heap := load_levels_heap
               (18 := (level3_platforms ! 6)\<lparr>k_x := 201\<rparr>,
                20 := (level3_enemies ! 0)\<lparr>k_x := 401\<rparr>,
                21 := (level3_enemies ! 1)\<lparr>k_x := 601\<rparr>)\<rparr>)
    in fst reloaded = Some (100, 400) \<and>
       map (k_x \<circ> heap (snd reloaded)) (platforms (snd reloaded)) =
         [0, 300, 600, 100, 300, 500, 201, 650] \<and>
       map (k_x \<circ> heap (snd reloaded)) (enemies (snd reloaded)) = [401, 601]) \<and>
   map k_x level3_platforms = [0, 300, 600, 100, 300, 500, 200, 650] \<and>
   map k_x level3_enemies = [400, 600]"
  unfolding level3_update
  by (simp add: load_level_def LevelManager_init_def level3_def
        heap_at_level3 level3_platforms_def level3_enemies_def rect_dict_def Let_def)

section \<open>Water platforms in the integration step\<close>

lemma check_collision_kind: "check_collision b (p\<lparr>k_type := t\<rparr>) = check_collision b p"
  by (simp add: check_collision_def Let_def)

lemma check_collisions_kind:
  "check_collisions b (map (\<lambda>p. p\<lparr>k_type := f p\<rparr>) ps) = check_collisions b ps"
  by (induction ps arbitrary: b) (simp_all add: check_collision_kind)

lemma PlayerBall_update_kind:
  "PlayerBall_update cfg (Some (map (\<lambda>p. p\<lparr>k_type := f p\<rparr>) ps)) w b =
   PlayerBall_update cfg (Some ps) w b"
  by (simp add: PlayerBall_update_def check_collisions_kind)

lemma Game_update_ball:
  "Game_update cfg lm player = Inr (br, p1, lm1) \<Longrightarrow>
   p1 = PlayerBall_update cfg (Some (map (heap lm) (platforms lm))) (in_water_test lm player)
          player"
  by (auto simp: Game_update_def Let_def split: sum.splits)

lemma check_collisions_foldl: "check_collisions b ps = foldl check_collision b ps"
  by (induction ps arbitrary: b) simp_all

lemma PlayerBall_update_steps:
  "PlayerBall_update cfg (Some ps) w b =
     screen_boundaries cfg (foldl check_collision (moved_ball cfg w b) ps)"
  by (simp add: PlayerBall_update_def moved_ball_def check_collisions_foldl Let_def)

lemma level2_moved_ball:
  "moved_ball sample_config False ((default_ball 400 470)\<lparr>vel_y := 9.5\<rparr>) =
     (default_ball 400 480)\<lparr>vel_y := 10\<rparr>"
  by (simp add: moved_ball_def sample_config_def default_ball_def)

text \<open>
  Claim C1, as amended. In every frame of the game loop, the ball's integration step
  resolves collisions against every platform of the current level, in list order and
  whatever its kind, water platforms included: the ball the frame produces is the screen
  block applied to the moved ball after \<^verbatim>\<open>check_collision\<close> has been run on it with
  each platform of the level's list, first to last, and what \<^verbatim>\<open>check_collision\<close> does
  with a platform does not depend on the platform's kind. (The kind matters to the
  immersion flag only, which \<open>in_water_test\<close> computes from the water platforms.)
\<close>

theorem frame_resolves_every_platform:
  assumes "Game_update cfg lm player = Inr (br, p1, lm1)"
  shows "p1 = screen_boundaries cfg
                (foldl check_collision (moved_ball cfg (in_water_test lm player) player)
                   (map (heap lm) (platforms lm))) \<and>
         check_collision b (p\<lparr>k_type := t\<rparr>) = check_collision b p"
  using Game_update_ball [OF assms]
  by (simp only: PlayerBall_update_steps check_collision_kind simp_thms)

theorem frame_resolves_every_platform_witness:
  "Game_update sample_config (snd (load_level 2 LevelManager_init))
       ((default_ball 400 470)\<lparr>vel_y := 9.5\<rparr>) =
     Inr (NoBranch, (default_ball 400 480)\<lparr>vel_y := - 7, on_ground := True\<rparr>,
          (snd (load_level 2 LevelManager_init))
            \<lparr>heap := load_levels_heap(11 := (level2_enemies ! 0)\<lparr>k_x := 201\<rparr>)\<rparr>) \<and>
   (default_ball 400 480)\<lparr>vel_y := - 7, on_ground := True\<rparr> =
     screen_boundaries sample_config
       (foldl check_collision ((default_ball 400 480)\<lparr>vel_y := 10\<rparr>) level2_platforms) \<and>
   check_collision ((default_ball 400 480)\<lparr>vel_y := 10\<rparr>)
       ((level2_platforms ! 4)\<lparr>k_type := None\<rparr>) =
     check_collision ((default_ball 400 480)\<lparr>vel_y := 10\<rparr>) (level2_platforms ! 4)"
  using frame_resolves_every_platform [OF level2_Game_update,
          where b = "(default_ball 400 480)\<lparr>vel_y := 10\<rparr>" and p = "level2_platforms ! 4"
            and t = None]
    level2_Game_update
  unfolding level2_active_platforms level2_not_in_water level2_moved_ball
  by blast

text \<open>
  The claim as stated fails in level 2: a ball falling onto the water surface bounces
  off it (\<open>vel_y = -7\<close>, on the ground) in the frame of the game, where the integration
  step against the platforms that are not water lets it fall on (\<open>vel_y = 10\<close>).
\<close>

theorem water_platform_is_resolved:
  "Game_update sample_config (snd (load_level 2 LevelManager_init))
       ((default_ball 400 470)\<lparr>vel_y := 9.5\<rparr>) =
     Inr (NoBranch, (default_ball 400 480)\<lparr>vel_y := - 7, on_ground := True\<rparr>,
          (snd (load_level 2 LevelManager_init))
            \<lparr>heap := load_levels_heap(11 := (level2_enemies ! 0)\<lparr>k_x := 201\<rparr>)\<rparr>) \<and>
   PlayerBall_update sample_config
       (Some (without_water (map (heap (snd (load_level 2 LevelManager_init)))
                (platforms (snd (load_level 2 LevelManager_init))))))
       (in_water_test (snd (load_level 2 LevelManager_init))
          ((default_ball 400 470)\<lparr>vel_y := 9.5\<rparr>))
       ((default_ball 400 470)\<lparr>vel_y := 9.5\<rparr>) =
     (default_ball 400 480)\<lparr>vel_y := 10\<rparr> \<and>
   (default_ball 400 480)\<lparr>vel_y := - 7, on_ground := True\<rparr> \<noteq>
     (default_ball 400 480)\<lparr>vel_y := 10\<rparr>"
  unfolding level2_Game_update level2_active_platforms level2_not_in_water
    level2_step_without_water
  by (simp add: default_ball_def)

section \<open>The customization read at construction\<close>

lemma default_in_ranges: "in_documented_ranges default_customization"
  by (simp add: in_documented_ranges_def default_customization_def)

lemma default_color:
  "default_customization ''color'' = Some (JTuple [JNum 255, JNum 0, JNum 0])"
  by (simp add: default_customization_def)

lemma load_saved:
  "\<exists>c. load_customization (Saved saved) default_customization = Inr c \<and>
       (\<forall>k. c k = (case saved k of
                      Some v \<Rightarrow> Some (if k = ''color'' then as_tuple v else v)
                    | None \<Rightarrow> default_customization k))"
proof (cases "saved ''color''")
  case None
  then have "(default_customization ++ saved) ''color'' =
               Some (JTuple [JNum 255, JNum 0, JNum 0])"
    by (simp add: map_add_def default_color)
  then have "load_customization (Saved saved) default_customization =
               Inr (default_customization ++ saved)"
    by (simp add: load_customization_def)
  moreover have "(default_customization ++ saved) k =
      (case saved k of
         Some v \<Rightarrow> Some (if k = ''color'' then as_tuple v else v)
       | None \<Rightarrow> default_customization k)" for k
    using None by (auto simp: map_add_def split: option.split)
  ultimately show ?thesis by blast
next
  case (Some v)
  then have c: "(default_customization ++ saved) ''color'' = Some v"
    by (simp add: map_add_def)
  show ?thesis
  proof (cases "\<exists>l. v = JList l")
    case True
    then obtain l where l: "v = JList l" by blast
    with c have "load_customization (Saved saved) default_customization =
        Inr ((default_customization ++ saved)(''color'' \<mapsto> JTuple l))"
      by (simp add: load_customization_def)
    moreover have "((default_customization ++ saved)(''color'' \<mapsto> JTuple l)) k =
        (case saved k of
           Some v \<Rightarrow> Some (if k = ''color'' then as_tuple v else v)
         | None \<Rightarrow> default_customization k)" for k
      using Some l by (auto simp: map_add_def split: option.split)
    ultimately show ?thesis by blast
  next
    case False
    with c have "load_customization (Saved saved) default_customization =
        Inr (default_customization ++ saved)"
      by (cases v) (simp_all add: load_customization_def)
    moreover have "(default_customization ++ saved) k =
        (case saved k of
           Some v \<Rightarrow> Some (if k = ''color'' then as_tuple v else v)
         | None \<Rightarrow> default_customization k)" for k
      using Some False by (cases v) (auto simp: map_add_def split: option.split)
    ultimately show ?thesis by blast
  qed
qed

text \<open>
  What construction does with the persisted customization: it succeeds on every
  mapping, and the ball's customization holds, under each key the mapping lacks, the
  built-in default, and under each key the mapping has, the persisted value as it is (a
  list under \<^verbatim>\<open>color\<close> turned into a tuple). With no file, or one that is not JSON,
  the customization is the defaults, and the defaults satisfy the documented ranges.
\<close>

lemma customization_after_load:
  "\<exists>c. PlayerBall_customization persisted = Inr c \<and>
     (\<forall>k. c k = (case persisted of
                   Saved saved \<Rightarrow>
                     (case saved k of
                        Some v \<Rightarrow> Some (if k = ''color'' then as_tuple v else v)
                      | None \<Rightarrow> default_customization k)
                 | _ \<Rightarrow> default_customization k)) \<and>
     in_documented_ranges default_customization"
proof (cases persisted)
  case (Saved saved)
  then show ?thesis
    using load_saved [of saved] default_in_ranges by (simp add: PlayerBall_customization_def)
qed (simp_all add: PlayerBall_customization_def load_customization_def default_in_ranges)

text \<open>
  Claim C4. For every persisted customization mapping read at construction, with keys
  missing or values out of range, the ball's customization satisfies the documented
  ranges (size in [10,50], bounce factor in [0.1,1.0], opacity in [0,255]), missing and
  out-of-range values giving way to the defaults. Missing keys do
  (\<open>customization_after_load\<close>); a value out of range does not: the code checks a range
  in the mutators \<^verbatim>\<open>set_size\<close>, \<^verbatim>\<open>set_bounce\<close> and \<^verbatim>\<open>set_opacity\<close> only, and
  \<^verbatim>\<open>load_customization\<close> takes what the file holds. On a persisted mapping with the
  one entry \<^verbatim>\<open>"size": 100\<close> the ball is built with radius 100.
\<close>

theorem oversized_customization_kept:
  "PlayerBall_customization (Saved [''size'' \<mapsto> JNum 100]) =
     Inr (default_customization(''size'' \<mapsto> JNum 100)) \<and>
   \<not> in_documented_ranges (default_customization(''size'' \<mapsto> JNum 100))"
  by (simp add: PlayerBall_customization_def load_customization_def default_customization_def
        in_documented_ranges_def)

end
